theory Spec2Isabelle
  imports
    Main
    "HOL-Library.Sublist"
    "HOL-Library.Char_ord"
    "HOL-Library.List_Lexorder"
    "HOL-Library.Product_Lexorder"
    "HOL-Library.Log_Nat"
    "HOL-Library.Multiset"
begin

section \<open>Text as the two scripts see it\<close>

text \<open>
  A Python \<open>str\<close> is a sequence of code points. The model uses HOL strings, so a
  character is a code point below 256 (ASCII and the Latin-1 supplement, which holds the
  accented letters of the Spanish patterns and labels); the text of the job postings has
  the euro sign as well (see there). On that range the functions below are
  \<open>str.lower\<close>, \<open>str.isspace\<close> (the set \<open>str.strip\<close> removes and the
  class \<open>\s\<close>), the class \<open>\w\<close> and the class \<open>\d\<close> of the \<open>re\<close> module for
  \<open>str\<close> patterns.
\<close>

definition code :: "char \<Rightarrow> nat" where
  "code c = of_char c"

definition is_upper_ascii :: "char \<Rightarrow> bool" where
  "is_upper_ascii c = (65 \<le> code c \<and> code c \<le> 90)"

definition is_lower_ascii :: "char \<Rightarrow> bool" where
  "is_lower_ascii c = (97 \<le> code c \<and> code c \<le> 122)"

definition is_digit :: "char \<Rightarrow> bool" where
  "is_digit c = (48 \<le> code c \<and> code c \<le> 57)"

definition is_space :: "char \<Rightarrow> bool" where
  "is_space c = ((9 \<le> code c \<and> code c \<le> 13) \<or> (28 \<le> code c \<and> code c \<le> 32)
                 \<or> code c = 133 \<or> code c = 160)"

definition is_word :: "char \<Rightarrow> bool" where
  "is_word c = (is_digit c \<or> is_upper_ascii c \<or> is_lower_ascii c \<or> code c = 95
                \<or> code c \<in> {170, 178, 179, 181, 185, 186, 188, 189, 190}
                \<or> (192 \<le> code c \<and> code c \<noteq> 215 \<and> code c \<noteq> 247))"

definition lower_char :: "char \<Rightarrow> char" where
  "lower_char c =
     (if is_upper_ascii c \<or> (192 \<le> code c \<and> code c \<le> 222 \<and> code c \<noteq> 215)
      then char_of (code c + 32) else c)"

definition lower :: "string \<Rightarrow> string" where
  "lower s = map lower_char s"

definition strip :: "string \<Rightarrow> string" where
  "strip s = rev (dropWhile is_space (rev (dropWhile is_space s)))"

text \<open>\<open>p in s\<close> for strings: \<open>p\<close> occurs in \<open>s\<close> as a contiguous block.\<close>

fun contains :: "string \<Rightarrow> string \<Rightarrow> bool" where
  "contains p [] = (p = [])"
| "contains p (c # cs) = (prefix p (c # cs) \<or> contains p cs)"

text \<open>\<open>s.split(sep)\<close> for a one-character separator; the result is never empty.\<close>

fun split :: "char \<Rightarrow> string \<Rightarrow> string list" where
  "split sep [] = [[]]"
| "split sep (c # cs) =
     (if c = sep then [] # split sep cs
      else (case split sep cs of
              [] \<Rightarrow> [[c]]
            | w # ws \<Rightarrow> (c # w) # ws))"

text \<open>\<open>sep.join(parts)\<close>.\<close>

fun join :: "string \<Rightarrow> string list \<Rightarrow> string" where
  "join sep [] = []"
| "join sep [w] = w"
| "join sep (w # ws) = w @ sep @ join sep ws"

section \<open>Regular expressions of the \<open>re\<close> module\<close>

text \<open>
  The patterns of both scripts use literals, character classes, \<open>\b\<close>, grouping,
  alternation, \<open>?\<close>, and \<open>+\<close> and \<open>{2,}\<close> on a character class only. The code asks
  only whether a match exists, which does not depend on the order in which a backtracking
  matcher tries the alternatives, so the matcher returns every position a match can end at.
  A position is the character before it (if any) and the text after it. The matcher is
  the same for both kinds of text below; \<open>wd\<close> is the class \<open>\w\<close> of the characters.
\<close>

datatype 'c rx =
    Eps
  | Chr 'c
  | Cls "'c \<Rightarrow> bool"
  | WordB
  | Seq "'c rx" "'c rx"
  | Alt "'c rx" "'c rx"
  | Opt "'c rx"
  | AtLeast nat "'c \<Rightarrow> bool"

type_synonym 'c pos = "'c option \<times> 'c list"

fun word_before :: "('c \<Rightarrow> bool) \<Rightarrow> 'c option \<Rightarrow> bool" where
  "word_before wd None = False"
| "word_before wd (Some c) = wd c"

fun word_after :: "('c \<Rightarrow> bool) \<Rightarrow> 'c list \<Rightarrow> bool" where
  "word_after wd [] = False"
| "word_after wd (c # cs) = wd c"

fun run_class :: "('c \<Rightarrow> bool) \<Rightarrow> nat \<Rightarrow> 'c option \<Rightarrow> 'c list \<Rightarrow> 'c pos list" where
  "run_class P n p [] = (if n = 0 then [(p, [])] else [])"
| "run_class P n p (c # cs) =
     (if n = 0 then [(p, c # cs)] else []) @
     (if P c then run_class P (n - 1) (Some c) cs else [])"

fun rx_step :: "('c \<Rightarrow> bool) \<Rightarrow> 'c rx \<Rightarrow> 'c pos \<Rightarrow> 'c pos list" where
  "rx_step wd Eps st = [st]"
| "rx_step wd (Chr c) (p, s) =
     (case s of [] \<Rightarrow> [] | x # xs \<Rightarrow> if x = c then [(Some x, xs)] else [])"
| "rx_step wd (Cls P) (p, s) =
     (case s of [] \<Rightarrow> [] | x # xs \<Rightarrow> if P x then [(Some x, xs)] else [])"
| "rx_step wd WordB (p, s) =
     (if word_before wd p \<noteq> word_after wd s then [(p, s)] else [])"
| "rx_step wd (Seq a b) st = concat (map (rx_step wd b) (rx_step wd a st))"
| "rx_step wd (Alt a b) st = rx_step wd a st @ rx_step wd b st"
| "rx_step wd (Opt a) st = rx_step wd a st @ [st]"
| "rx_step wd (AtLeast n P) (p, s) = run_class P n p s"

text \<open>\<open>pattern.fullmatch(s)\<close> is not \<open>None\<close>.\<close>

definition re_fullmatch :: "('c \<Rightarrow> bool) \<Rightarrow> 'c rx \<Rightarrow> 'c list \<Rightarrow> bool" where
  "re_fullmatch wd r s = ([] \<in> snd ` set (rx_step wd r (None, s)))"

text \<open>\<open>re.search(pattern, s)\<close> is not \<open>None\<close>: a match starts at some position.\<close>

fun search_from :: "('c \<Rightarrow> bool) \<Rightarrow> 'c rx \<Rightarrow> 'c option \<Rightarrow> 'c list \<Rightarrow> bool" where
  "search_from wd r p [] = (rx_step wd r (p, []) \<noteq> [])"
| "search_from wd r p (c # cs) =
     (rx_step wd r (p, c # cs) \<noteq> [] \<or> search_from wd r (Some c) cs)"

definition re_search :: "('c \<Rightarrow> bool) \<Rightarrow> 'c rx \<Rightarrow> 'c list \<Rightarrow> bool" where
  "re_search wd r s = search_from wd r None s"

text \<open>A literal string, a sequence and an alternation of several parts.\<close>

fun lit :: "'c list \<Rightarrow> 'c rx" where
  "lit [] = Eps"
| "lit [c] = Chr c"
| "lit (c # cs) = Seq (Chr c) (lit cs)"

fun seqs :: "'c rx list \<Rightarrow> 'c rx" where
  "seqs [] = Eps"
| "seqs [r] = r"
| "seqs (r # rs) = Seq r (seqs rs)"

fun alts :: "'c rx \<Rightarrow> 'c rx list \<Rightarrow> 'c rx" where
  "alts r [] = r"
| "alts r (q # qs) = Alt r (alts q qs)"

section \<open>leads_detectados.py: the text signal scorer\<close>

text \<open>
  A character of a posting's text is a code point below 256 or the euro sign (U+20AC),
  the one character beyond that range that the patterns of the script name. The euro
  sign has no other case, is not white space and is not a word character. \<open>latin\<close> turns a
  string of the first kind into such text.
\<close>

datatype tchar = Latin char | Euro

type_synonym utext = "tchar list"

fun text_lower_char :: "tchar \<Rightarrow> tchar" where
  "text_lower_char (Latin c) = Latin (lower_char c)"
| "text_lower_char Euro = Euro"

fun text_space :: "tchar \<Rightarrow> bool" where
  "text_space (Latin c) = is_space c"
| "text_space Euro = False"

fun text_word :: "tchar \<Rightarrow> bool" where
  "text_word (Latin c) = is_word c"
| "text_word Euro = False"

definition text_lower :: "utext \<Rightarrow> utext" where
  "text_lower t = map text_lower_char t"

definition latin :: "string \<Rightarrow> utext" where
  "latin s = map Latin s"

text \<open>A literal part of a pattern, and the accented letters of the patterns and labels.\<close>

definition word :: "string \<Rightarrow> tchar rx" where
  "word s = lit (latin s)"

definition o_acute :: char where "o_acute = CHR 0xF3"
definition i_acute :: char where "i_acute = CHR 0xED"

text \<open>
  \<open>POSITIVE_SIGNALS\<close> and \<open>NEGATIVE_SIGNALS\<close>, rule by rule in the source's order. An
  alternation binds weaker than a sequence: \<open>\bmigrar|migraci\'on\b\<close> is
  (\<open>\bmigrar\<close>) or (\<open>migraci\'on\b\<close>).
\<close>

definition POSITIVE_SIGNALS :: "(tchar rx \<times> int) list" where
  "POSITIVE_SIGNALS =
    [(seqs [WordB, word ''proceso'', Opt (word ''s''), WordB], 3),
     (seqs [WordB, word ''sistema'', Opt (word ''s''), WordB], 3),
     (seqs [WordB, word ''operaci'', Alt (word ''o'') (Chr (Latin o_acute)), word ''n'',
            Opt (word ''es''), WordB], 3),
     (seqs [WordB, word ''flujo'', Opt (word ''s''), WordB], 3),
     (seqs [WordB, word ''automatiza'',
            Alt (word ''r'') (seqs [word ''ci'', Chr (Latin o_acute), word ''n'']), WordB], 3),
     (seqs [WordB, word ''integraci'', Alt (word ''o'') (Chr (Latin o_acute)), word ''n'',
            Opt (word ''es''), WordB], 5),
     (seqs [WordB, word ''api'', Opt (word ''s''), WordB], 4),
     (seqs [WordB, word ''crm'', WordB], 4),
     (seqs [WordB, word ''erp'', WordB], 4),
     (seqs [WordB, word ''base de datos'', WordB], 4),
     (seqs [WordB, word ''postgre'', Opt (Alt (word ''s'') (word ''sql'')), WordB], 4),
     (seqs [WordB, word ''backend'', WordB], 3),
     (seqs [WordB, word ''dato'', Opt (word ''s''), WordB], 3),
     (Alt (seqs [WordB, word ''migrar''])
          (seqs [word ''migraci'', Chr (Latin o_acute), word ''n'', WordB]), 4),
     (seqs [WordB, word ''sistema actual'', WordB], 5)]"

definition NEGATIVE_SIGNALS :: "(tchar rx \<times> int) list" where
  "NEGATIVE_SIGNALS =
    [(seqs [WordB, word ''wordpress'', WordB], - 5),
     (seqs [WordB, word ''wix'', WordB], - 5),
     (seqs [WordB, word ''shopify'', WordB], - 4),
     (seqs [WordB, word ''landing'', WordB], - 4),
     (seqs [WordB, word ''chatbot'', WordB], - 4),
     (seqs [WordB, word ''bot'', WordB], - 3),
     (seqs [WordB, word ''instagram'', WordB], - 3),
     (seqs [WordB, word ''redes sociales'', WordB], - 3),
     (seqs [WordB, word ''seo'', WordB], - 3),
     (seqs [WordB, word ''marketing'', WordB], - 3),
     (alts (seqs [WordB, word ''100'', Opt (Cls text_space), Chr Euro])
           [seqs [word ''200'', Opt (Cls text_space), Chr Euro],
            seqs [word ''300'', Opt (Cls text_space), Chr Euro, WordB]], - 8),
     (Alt (seqs [WordB, word ''solo prompt'']) (seqs [word ''prompt'', WordB]), - 6),
     (alts (seqs [WordB, word ''n8n'']) [word ''zapier'', seqs [word ''make'', WordB]], - 3)]"

text \<open>One \<open>for pattern, value in ...\<close> loop of \<open>compute_score\<close>, on the running score.\<close>

fun score_loop :: "(tchar rx \<times> int) list \<Rightarrow> utext \<Rightarrow> int \<Rightarrow> int" where
  "score_loop [] t score = score"
| "score_loop ((pattern, val) # rules) t score =
     score_loop rules t (if re_search text_word pattern t then score + val else score)"

definition compute_score :: "utext \<Rightarrow> int" where
  "compute_score text =
     (let t = text_lower text;
          score = 0;
          score = score_loop POSITIVE_SIGNALS t score;
          score = score_loop NEGATIVE_SIGNALS t score
      in score)"

definition label_failed :: string where
  "label_failed = ''Intento previo fallido / mala implementaci'' @ [o_acute] @ ''n''"
definition label_integration :: string where
  "label_integration = ''Necesidad de integrar sistemas o datos''"
definition label_manual :: string where
  "label_manual = ''Proceso manual cr'' @ [i_acute] @ ''tico / dependencia de Excel''"
definition label_leads :: string where
  "label_leads = ''Gesti'' @ [o_acute] @ ''n ineficiente de leads o ventas''"
definition label_reporting :: string where
  "label_reporting = ''Reporting manual o inexistente''"
definition label_unspecified :: string where
  "label_unspecified =
     ''Problema operativo no especificado (requiere revisi'' @ [o_acute] @ ''n)''"

text \<open>The five patterns of \<open>infer_problem\<close>, in the order it tests them.\<close>

definition pat_failed :: "tchar rx" where
  "pat_failed =
     alts (word ''no funcion'') [word ''fall'', word ''reabrimos'', word ''mal implementado'']"
definition pat_integration :: "tchar rx" where
  "pat_integration = alts (word ''integraci'') [word ''api'', word ''webhook'']"
definition pat_manual :: "tchar rx" where
  "pat_manual = Alt (word ''excel'') (word ''manual'')"
definition pat_leads :: "tchar rx" where
  "pat_leads = alts (word ''leads'') [word ''crm'', word ''pipeline'']"
definition pat_reporting :: "tchar rx" where
  "pat_reporting = Alt (word ''report'') (word ''dashboard'')"

definition infer_problem :: "utext \<Rightarrow> string" where
  "infer_problem text =
     (let t = text_lower text in
      if re_search text_word pat_failed t then label_failed
      else if re_search text_word pat_integration t then label_integration
      else if re_search text_word pat_manual t then label_manual
      else if re_search text_word pat_leads t then label_leads
      else if re_search text_word pat_reporting t then label_reporting
      else label_unspecified)"

text \<open>\<open>full_text = f"{title} {description}"\<close> in \<open>scrape_html\<close>.\<close>

definition full_text :: "utext \<Rightarrow> utext \<Rightarrow> utext" where
  "full_text title description = title @ latin '' '' @ description"

section \<open>init_leads.py: email classification\<close>

definition PERSONAL_DOMAINS :: "string set" where
  "PERSONAL_DOMAINS =
     {''gmail.com'', ''hotmail.com'', ''outlook.com'', ''yahoo.com'', ''live.com'',
      ''icloud.com'', ''aol.com'', ''proton.me'', ''protonmail.com'', ''gmx.com'',
      ''gmx.es'', ''zoho.com''}"

text \<open>
  \<open>EMAIL_REGEX\<close> is compiled with \<open>re.IGNORECASE\<close>, so \<open>A-Z\<close> in a class stands for
  the letters of both cases.
\<close>

definition is_alpha :: "char \<Rightarrow> bool" where
  "is_alpha c = (is_upper_ascii c \<or> is_lower_ascii c)"

definition local_char :: "char \<Rightarrow> bool" where
  "local_char c = (is_alpha c \<or> is_digit c \<or> c \<in> set ''._%+-'')"

definition host_char :: "char \<Rightarrow> bool" where
  "host_char c = (is_alpha c \<or> is_digit c \<or> c \<in> set ''.-'')"

definition EMAIL_REGEX :: "char rx" where
  "EMAIL_REGEX =
     seqs [AtLeast 1 local_char, Chr CHR ''@'', AtLeast 1 host_char, Chr CHR ''.'',
           AtLeast 2 is_alpha]"

text \<open>\<open>parts[-2:]\<close>: the last two elements, or all of them when there are fewer.\<close>

definition last_two :: "'a list \<Rightarrow> 'a list" where
  "last_two xs = drop (length xs - 2) xs"

definition is_corporate_email :: "string \<Rightarrow> bool" where
  "is_corporate_email addr =
     (let addr = lower (strip addr) in
      if \<not> re_fullmatch is_word EMAIL_REGEX addr then False
      else let domain = last (split CHR ''@'' addr) in
        if domain \<in> PERSONAL_DOMAINS then False
        else let parts = split CHR ''.'' domain in
          if length parts \<ge> 2 \<and> join ''.'' (last_two parts) \<in> PERSONAL_DOMAINS then False
          else True)"

definition classify_email :: "string \<Rightarrow> string" where
  "classify_email addr =
     (if addr = [] then ''no_encontrado''
      else if is_corporate_email addr then ''corporativo'' else ''personal'')"

text \<open>\<open>re.sub(r"[^\d+]", "", phone)\<close> keeps the digits and the plus signs.\<close>

definition clean_phone :: "string \<Rightarrow> string" where
  "clean_phone phone =
     (if phone = [] then [] else filter (\<lambda>c. is_digit c \<or> c = CHR ''+'') phone)"

section \<open>init_leads.py: the lead score\<close>

text \<open>
  A Python \<open>float\<close> is an IEEE 754 double. Its value is a rational number, and every
  operation returns the double nearest to the exact result, a tie going to the even
  significand. \<open>fl\<close> is that rounding, for results in the normal range (the scores lie
  between 0 and 1); \<open>ilog2 x\<close> is the exponent of \<open>x > 0\<close>, the floor of its binary
  logarithm.
\<close>

type_synonym float = rat

definition round_half_even :: "rat \<Rightarrow> int" where
  "round_half_even x =
     (let f = \<lfloor>x\<rfloor>; d = x - of_int f in
      if d < 1 / 2 then f
      else if 1 / 2 < d then f + 1
      else if even f then f else f + 1)"

definition ilog2 :: "rat \<Rightarrow> int" where
  "ilog2 x =
     (if 1 \<le> x then int (floorlog 2 (nat \<lfloor>x\<rfloor>)) - 1
      else - int (floorlog 2 (nat (\<lceil>1 / x\<rceil> - 1))))"

definition fl :: "rat \<Rightarrow> float" where
  "fl x =
     (if x = 0 then 0
      else let e = ilog2 \<bar>x\<bar> in
        of_int (round_half_even (x * power_int 2 (52 - e))) * power_int 2 (e - 52))"

text \<open>\<open>a + b\<close> on floats, and a decimal literal such as \<open>0.3\<close>.\<close>

definition fadd :: "float \<Rightarrow> float \<Rightarrow> float" where
  "fadd a b = fl (a + b)"

definition lit_float :: "rat \<Rightarrow> float" where
  "lit_float q = fl q"

text \<open>
  \<open>round(x, 2)\<close> on a float: the exact value of \<open>x\<close> is rounded to two decimals, a tie
  going to the even digit, and the decimal result is converted to the nearest double.
\<close>

definition py_round2 :: "float \<Rightarrow> float" where
  "py_round2 x = fl (of_int (round_half_even (x * 100)) / 100)"

text \<open>
  A row of the result table: the dictionary \<open>row\<close> of \<open>main\<close>, whose keys are fixed.
  \<open>score_inicial\<close> is added once the other keys are set.
\<close>

record row =
  empresa :: string
  web :: string
  email :: string
  email_tipo :: string
  telefono :: string
  direccion :: string
  ciudad :: string
  provincia :: string
  pais :: string
  categoria :: string
  fuente :: string
  query :: string
  fecha_extraccion :: string

record scored_row = row +
  score_inicial :: float

definition score_lead :: "'a row_scheme \<Rightarrow> float" where
  "score_lead r =
     (let score = lit_float 0;
          score = (if web r \<noteq> [] then fadd score (lit_float (3 / 10)) else score);
          score = (if classify_email (email r) = ''corporativo''
                   then fadd score (lit_float (3 / 10)) else score);
          score = (if telefono r \<noteq> [] then fadd score (lit_float (2 / 10)) else score);
          score = (if ciudad r \<noteq> [] then fadd score (lit_float (1 / 10)) else score);
          score = (if categoria r \<noteq> [] then fadd score (lit_float (1 / 10)) else score)
      in py_round2 (min score (lit_float 1)))"

section \<open>init_leads.py: the place enrichment pipeline\<close>

text \<open>
  What the pipeline reads from outside is a parameter of the model: the two directory
  services, the page fetch, \<open>urlparse\<close> and \<open>urljoin\<close>, \<open>tldextract\<close>, the clock, and
  the order in which Python iterates a set. \<open>page_emails html\<close> is the set \<open>found\<close>
  that the page's markup and visible text yield (\<open>extract_emails_from_html\<close> on both).
\<close>

record component =
  c_types :: "string list"
  c_long_name :: string

text \<open>The detail dictionary of a place; an absent key is the default its \<open>get\<close> names.\<close>

record details =
  d_name :: string
  d_formatted_address :: string
  d_formatted_phone_number :: string
  d_website :: string
  d_types :: "string list"
  d_address_components :: "component list"

record world =
  places_text_search :: "string \<Rightarrow> string list"
  place_details :: "string \<Rightarrow> details option"
  fetch_url :: "string \<Rightarrow> string"
  page_emails :: "string \<Rightarrow> string set"
  urlparse :: "string \<Rightarrow> string \<times> string"
  urljoin :: "string \<Rightarrow> string \<Rightarrow> string"
  registered_domain :: "string \<Rightarrow> string"
  iteration :: "string set \<Rightarrow> string list"
  today :: string

text \<open>The loop of \<open>find_candidate_pages\<close>, on the list \<open>unique_urls\<close>.\<close>

fun collect_urls :: "world \<Rightarrow> string \<Rightarrow> string list \<Rightarrow> string list \<Rightarrow> string list" where
  "collect_urls w base [] unique_urls = unique_urls"
| "collect_urls w base (p # paths) unique_urls =
     (let u = urljoin w (if suffix ''/'' base then base else base @ ''/'') p in
      collect_urls w base paths
        (if u \<notin> set unique_urls then unique_urls @ [u] else unique_urls))"

definition find_candidate_pages :: "world \<Rightarrow> string \<Rightarrow> string list" where
  "find_candidate_pages w base_url =
     take 5 (collect_urls w base_url
       [[], ''contact'', ''contacto'', ''contact-us'', ''sobre-nosotros'', ''aviso-legal'',
        ''legal'', ''privacy'', ''privacidad''] [])"

definition normalize_website :: "world \<Rightarrow> string \<Rightarrow> string" where
  "normalize_website w url =
     (if url = [] then []
      else let url = strip url;
               url = (if \<not> prefix ''http'' url then ''http://'' @ url else url);
               (scheme, netloc) = urlparse w url
           in scheme @ ''://'' @ netloc)"

fun address_component :: "component list \<Rightarrow> string \<Rightarrow> string" where
  "address_component [] typ = []"
| "address_component (c # cs) typ =
     (if typ \<in> set (c_types c) then c_long_name c else address_component cs typ)"

text \<open>
  The page loop of \<open>main\<close> (lines 259 to 275), on the running set \<open>emails\<close>. The second
  component lists the URLs fetched so far. A \<open>break\<close> ends the recursion.
\<close>

fun crawl :: "world \<Rightarrow> string list \<Rightarrow> string set \<Rightarrow> string list \<Rightarrow> string set \<times> string list"
  where
  "crawl w [] emails fetched = (emails, fetched)"
| "crawl w (page_url # urls) emails fetched =
     (let html = fetch_url w page_url;
          fetched = fetched @ [page_url]
      in if html = [] then crawl w urls emails fetched
         else let emails = emails \<union> page_emails w html in
           if emails \<noteq> {} \<and> Set.filter is_corporate_email emails \<noteq> {}
           then (Set.filter is_corporate_email emails, fetched)
           else crawl w urls emails fetched)"

text \<open>
  The choice of one address (lines 277 to 289), on the addresses in the order Python
  iterates the set. \<open>chosen\<close> is \<open>None\<close> or a string; \<open>if chosen\<close> holds for a non-empty
  string.
\<close>

definition priority :: "string list" where
  "priority = [''info@'', ''contact'', ''contacto'', ''comercial'', ''ventas'', ''admin@'']"

fun truthy :: "string option \<Rightarrow> bool" where
  "truthy None = False"
| "truthy (Some s) = (s \<noteq> [])"

fun inner_loop :: "string \<Rightarrow> string list \<Rightarrow> string option \<Rightarrow> string option" where
  "inner_loop p [] chosen = chosen"
| "inner_loop p (e # es) chosen =
     (if contains p (lower e) then Some e else inner_loop p es chosen)"

fun priority_loop :: "string list \<Rightarrow> string list \<Rightarrow> string option \<Rightarrow> string option" where
  "priority_loop [] emails chosen = chosen"
| "priority_loop (p # ps) emails chosen =
     (let chosen = inner_loop p emails chosen in
      if truthy chosen then chosen else priority_loop ps emails chosen)"

text \<open>
  \<open>select_with ps emails\<close> is \<open>(email_found, email_tipo)\<close> after line 289 for the keyword
  list \<open>ps\<close>; with no address both keep their initial values. \<open>sorted(emails)[0]\<close> is the
  least address.
\<close>

fun select_with :: "string list \<Rightarrow> string list \<Rightarrow> string \<times> string" where
  "select_with ps [] = ([], ''no_encontrado'')"
| "select_with ps (e # es) =
     (let chosen = priority_loop ps (e # es) None;
          email_found = (case chosen of
                           None \<Rightarrow> Min (set (e # es))
                         | Some c \<Rightarrow> if c \<noteq> [] then c else Min (set (e # es)))
      in (email_found, classify_email email_found))"

definition select_email :: "string list \<Rightarrow> string \<times> string" where
  "select_email emails = select_with priority emails"

text \<open>
  The state of \<open>main\<close>: its three accumulators, and the list of the URLs fetched so far
  (the trace of \<open>fetch_url\<close>, which the source does not store).
\<close>

record state =
  all_rows :: "scored_row list"
  seen_domains :: "string set"
  seen_places :: "string set"
  fetched_urls :: "string list"

definition make_row ::
  "world \<Rightarrow> string \<Rightarrow> details \<Rightarrow> string \<Rightarrow> string \<Rightarrow> string \<Rightarrow> scored_row" where
  "make_row w q dt website email_found tipo =
     (let r = \<lparr>empresa = strip (d_name dt),
               web = website,
               email = email_found,
               email_tipo = tipo,
               telefono = clean_phone (d_formatted_phone_number dt),
               direccion = strip (d_formatted_address dt),
               ciudad = (let city = address_component (d_address_components dt) ''locality''
                         in if city \<noteq> [] then city
                            else address_component (d_address_components dt) ''postal_town''),
               provincia = address_component (d_address_components dt)
                             ''administrative_area_level_2'',
               pais = address_component (d_address_components dt) ''country'',
               categoria = (if d_types dt \<noteq> [] then join '', '' (d_types dt) else []),
               fuente = ''google_places'',
               query = q,
               fecha_extraccion = today w\<rparr>
      in row.extend r \<lparr>score_inicial = score_lead r\<rparr>)"

text \<open>One pass of the body of \<open>for it in items\<close>, for the item with identifier \<open>place_id\<close>.\<close>

definition process_item :: "world \<Rightarrow> string \<Rightarrow> state \<Rightarrow> string \<Rightarrow> state" where
  "process_item w q s place_id =
     (if place_id = [] \<or> place_id \<in> seen_places s then s
      else let s = s\<lparr>seen_places := insert place_id (seen_places s)\<rparr> in
        case place_details w place_id of
          None \<Rightarrow> s
        | Some dt \<Rightarrow>
            let website = (if d_website dt \<noteq> [] then normalize_website w (d_website dt)
                           else [])
            in if website \<noteq> [] then
                 let domain = registered_domain w website in
                 if domain \<noteq> [] \<and> domain \<in> seen_domains s
                 then s\<lparr>all_rows := all_rows s @
                          [make_row w q dt website [] ''no_encontrado'']\<rparr>
                 else
                   let s = (if domain \<noteq> [] then s\<lparr>seen_domains := insert domain (seen_domains s)\<rparr>
                            else s);
                       (emails, fetched) =
                          crawl w (find_candidate_pages w website) {} (fetched_urls s);
                       (email_found, tipo) = select_email (iteration w emails)
                   in s\<lparr>all_rows := all_rows s @ [make_row w q dt website email_found tipo],
                        fetched_urls := fetched\<rparr>
               else s\<lparr>all_rows := all_rows s @ [make_row w q dt website [] ''no_encontrado'']\<rparr>)"

fun run_items :: "world \<Rightarrow> string \<Rightarrow> state \<Rightarrow> string list \<Rightarrow> state" where
  "run_items w q s [] = s"
| "run_items w q s (it # items) = run_items w q (process_item w q s it) items"

fun run_queries :: "world \<Rightarrow> state \<Rightarrow> string list \<Rightarrow> state" where
  "run_queries w s [] = s"
| "run_queries w s (q # qs) = run_queries w (run_items w q s (places_text_search w q)) qs"

definition initial_state :: state where
  "initial_state = \<lparr>all_rows = [], seen_domains = {}, seen_places = {}, fetched_urls = []\<rparr>"

section \<open>init_leads.py: sorting and removing duplicates\<close>

text \<open>
  \<open>df.sort_values(["score_inicial", "email_tipo"], ascending=[False, True])\<close>: a sort on
  several columns is stable in pandas. The rows are ordered by falling score and, at equal
  score, by rising tag, a string comparison.
\<close>

definition sort_values :: "scored_row list \<Rightarrow> scored_row list" where
  "sort_values rows = sort_key (\<lambda>r. (- score_inicial r, email_tipo r)) rows"

text \<open>
  \<open>df.drop_duplicates(subset=["empresa", "web"])\<close> keeps the first row of each pair;
  \<open>seen\<close> holds the pairs of the rows already passed.
\<close>

definition pair_key :: "scored_row \<Rightarrow> string \<times> string" where
  "pair_key r = (empresa r, web r)"

fun drop_duplicates :: "(string \<times> string) list \<Rightarrow> scored_row list \<Rightarrow> scored_row list" where
  "drop_duplicates seen [] = []"
| "drop_duplicates seen (r # rs) =
     (if pair_key r \<in> set seen then drop_duplicates seen rs
      else r # drop_duplicates (pair_key r # seen) rs)"

definition dedup_rank :: "scored_row list \<Rightarrow> scored_row list" where
  "dedup_rank rows = drop_duplicates [] (sort_values rows)"

text \<open>
  \<open>main\<close>: without an API key it exits with an error; with no rows it returns without a
  file; otherwise it exports the ranked rows.
\<close>

datatype error = SystemExit

definition main :: "world \<Rightarrow> string \<Rightarrow> string list \<Rightarrow> error + scored_row list option" where
  "main w api_key queries =
     (if api_key = [] then Inl SystemExit
      else let rows = all_rows (run_queries w initial_state queries) in
        if rows = [] then Inr None else Inr (Some (dedup_rank rows)))"

section \<open>leads_detectados.py: the minimum score filter\<close>

record posting =
  p_fuente :: string
  titulo :: utext
  descripcion :: utext
  problema_detectado :: string
  score_dolor :: int

definition make_posting :: "string \<Rightarrow> utext \<Rightarrow> utext \<Rightarrow> posting" where
  "make_posting source title description =
     \<lparr>p_fuente = source, titulo = title, descripcion = description,
      problema_detectado = infer_problem (full_text title description),
      score_dolor = compute_score (full_text title description)\<rparr>"

text \<open>\<open>df[df["score_dolor"] >= 5]\<close>.\<close>

definition score_filter :: "posting list \<Rightarrow> posting list" where
  "score_filter rows = filter (\<lambda>r. score_dolor r \<ge> 5) rows"

section \<open>Definitions used to state the properties\<close>

text \<open>The sum of the weights of the rules whose pattern occurs in \<open>t\<close>, each once.\<close>

definition rule_sum :: "(tchar rx \<times> int) list \<Rightarrow> utext \<Rightarrow> int" where
  "rule_sum rules t =
     (\<Sum>(pattern, val) \<leftarrow> rules. if re_search text_word pattern t then val else 0)"

text \<open>The posting of C6: its title and its description.\<close>

definition example_title :: utext where
  "example_title = latin ''Backend API integration CRM''"

definition example_description :: utext where
  "example_description = latin (''migraci'' @ [o_acute] @ ''n postgres'')"

text \<open>The first address, in iteration order, whose lower-cased form contains \<open>p\<close>.\<close>

definition first_with :: "string \<Rightarrow> string list \<Rightarrow> string option" where
  "first_with p es = find (\<lambda>e. contains p (lower e)) es"

text \<open>
  The choice in the spec's words: the first keyword of the list that some address
  contains decides, and the first address containing it is chosen; if no keyword occurs
  in any address, the least address is chosen.
\<close>

definition spec_choice :: "string list \<Rightarrow> string list \<Rightarrow> string" where
  "spec_choice ps es =
     (case find (\<lambda>p. first_with p es \<noteq> None) ps of
        None \<Rightarrow> Min (set es)
      | Some p \<Rightarrow> (case first_with p es of None \<Rightarrow> Min (set es) | Some e \<Rightarrow> e))"

text \<open>The corporate addresses of a set if it has any, else the whole set.\<close>

definition restrict_corporate :: "string set \<Rightarrow> string set" where
  "restrict_corporate S =
     (if \<exists>e\<in>S. is_corporate_email e then {e \<in> S. is_corporate_email e} else S)"

text \<open>
  The addresses discovered by the page loop: the running union of the sets found on the
  pages it fetches, up to the page where the loop stops.
\<close>

fun discovered :: "world \<Rightarrow> string list \<Rightarrow> string set \<Rightarrow> string set" where
  "discovered w [] emails = emails"
| "discovered w (page_url # urls) emails =
     (if fetch_url w page_url = [] then discovered w urls emails
      else let emails = emails \<union> page_emails w (fetch_url w page_url) in
        if \<exists>e\<in>emails. is_corporate_email e then emails else discovered w urls emails)"

text \<open>The domain of an address and the denylist test of \<open>is_corporate_email\<close>.\<close>

definition email_domain :: "string \<Rightarrow> string" where
  "email_domain addr = last (split CHR ''@'' addr)"

definition denylisted :: "string \<Rightarrow> bool" where
  "denylisted domain =
     (domain \<in> PERSONAL_DOMAINS
      \<or> (length (split CHR ''.'' domain) \<ge> 2
         \<and> join ''.'' (last_two (split CHR ''.'' domain)) \<in> PERSONAL_DOMAINS))"

text \<open>A world for the examples: one page, with three addresses on it.\<close>

definition example_world :: world where
  "example_world =
     \<lparr>places_text_search = (\<lambda>q. []),
      place_details = (\<lambda>p. None),
      fetch_url = (\<lambda>u. ''<html>''),
      page_emails = (\<lambda>h. {''ana@gmail.com'', ''ventas@acme.es'', ''admin@acme.es''}),
      urlparse = (\<lambda>u. ([], [])),
      urljoin = (\<lambda>b p. b @ p),
      registered_domain = (\<lambda>u. u),
      iteration = (\<lambda>S. []),
      today = []\<rparr>"

text \<open>
  The order of the sorted table: a row ranks before another if its score is higher, or
  the scores are equal and its tag is not greater as a string.
\<close>

definition ranks_before :: "scored_row \<Rightarrow> scored_row \<Rightarrow> bool" where
  "ranks_before a b =
     (score_inicial a > score_inicial b
      \<or> (score_inicial a = score_inicial b \<and> email_tipo a \<le> email_tipo b))"

text \<open>The rows of a table whose (name, website) pair occurs in no earlier row.\<close>

definition first_occurrences :: "scored_row list \<Rightarrow> scored_row list" where
  "first_occurrences xs =
     map (nth xs)
       (filter (\<lambda>i. \<forall>j<i. pair_key (xs ! j) \<noteq> pair_key (xs ! i)) [0..<length xs])"

text \<open>A row for the examples, with the fields the ranking reads.\<close>

definition example_row :: "string \<Rightarrow> string \<Rightarrow> string \<Rightarrow> float \<Rightarrow> scored_row" where
  "example_row name site tipo score =
     \<lparr>empresa = name, web = site, email = [], email_tipo = tipo, telefono = [],
      direccion = [], ciudad = [], provincia = [], pais = [], categoria = [],
      fuente = ''google_places'', query = [], fecha_extraccion = [],
      score_inicial = score\<rparr>"

text \<open>The website of a place as \<open>main\<close> computes it from the detail record.\<close>

definition website_of :: "world \<Rightarrow> details \<Rightarrow> string" where
  "website_of w dt = (if d_website dt \<noteq> [] then normalize_website w (d_website dt) else [])"

text \<open>
  Consecutive passes of the loop body, each for a query and an item of its result list;
  both loops of \<open>main\<close> are such a sequence.
\<close>

fun run_steps :: "world \<Rightarrow> state \<Rightarrow> (string \<times> string) list \<Rightarrow> state" where
  "run_steps w s [] = s"
| "run_steps w s ((q, it) # rest) = run_steps w (process_item w q s it) rest"

text \<open>A world with two places of one company, on one registrable domain.\<close>

definition acme_details :: "string \<Rightarrow> string \<Rightarrow> details" where
  "acme_details name site =
     \<lparr>d_name = name, d_formatted_address = ''Calle Mayor 1, Madrid'',
      d_formatted_phone_number = ''910 000 000'', d_website = site,
      d_types = [''point_of_interest''], d_address_components = []\<rparr>"

definition acme_world :: world where
  "acme_world =
     \<lparr>places_text_search = (\<lambda>q. [''p1'', ''p2'']),
      place_details = (\<lambda>p. if p = ''p1'' then Some (acme_details ''Acme'' ''http://acme.es/madrid'')
                            else Some (acme_details ''Acme Getafe'' ''http://www.acme.es'')),
      fetch_url = (\<lambda>u. []),
      page_emails = (\<lambda>h. {}),
      urlparse = (\<lambda>u. if u = ''http://acme.es/madrid'' then (''http'', ''acme.es'')
                       else (''http'', ''www.acme.es'')),
      urljoin = (\<lambda>b p. b @ p),
      registered_domain = (\<lambda>u. ''acme.es''),
      iteration = (\<lambda>S. []),
      today = ''2024-01-01''\<rparr>"

text \<open>
  The score as the specification words it, in exact decimal arithmetic: the sum of the
  weights of the fields that are present, clamped to the interval from 0 to 1 and rounded
  to two decimals.
\<close>

definition spec_sum :: "'a row_scheme \<Rightarrow> rat" where
  "spec_sum r =
     0 + (if web r \<noteq> [] then 3 / 10 else 0)
       + (if classify_email (email r) = ''corporativo'' then 3 / 10 else 0)
       + (if telefono r \<noteq> [] then 2 / 10 else 0)
       + (if ciudad r \<noteq> [] then 1 / 10 else 0)
       + (if categoria r \<noteq> [] then 1 / 10 else 0)"

definition clamp01 :: "rat \<Rightarrow> rat" where
  "clamp01 x = max 0 (min x 1)"

definition round2 :: "rat \<Rightarrow> rat" where
  "round2 x = of_int (round_half_even (x * 100)) / 100"

definition spec_score :: "'a row_scheme \<Rightarrow> rat" where
  "spec_score r = round2 (clamp01 (spec_sum r))"

text \<open>
  The body of \<open>score_lead\<close> on the outcome of its five tests, and the number of tenths
  that the tests which hold stand for.
\<close>

definition score_of :: "bool \<Rightarrow> bool \<Rightarrow> bool \<Rightarrow> bool \<Rightarrow> bool \<Rightarrow> float" where
  "score_of has_web corporate has_phone has_city has_category =
     (let score = lit_float 0;
          score = (if has_web then fadd score (lit_float (3 / 10)) else score);
          score = (if corporate then fadd score (lit_float (3 / 10)) else score);
          score = (if has_phone then fadd score (lit_float (2 / 10)) else score);
          score = (if has_city then fadd score (lit_float (1 / 10)) else score);
          score = (if has_category then fadd score (lit_float (1 / 10)) else score)
      in py_round2 (min score (lit_float 1)))"

definition tenths :: "bool \<Rightarrow> bool \<Rightarrow> bool \<Rightarrow> bool \<Rightarrow> bool \<Rightarrow> int" where
  "tenths has_web corporate has_phone has_city has_category =
     (if has_web then 3 else 0) + (if corporate then 3 else 0)
     + (if has_phone then 2 else 0) + (if has_city then 1 else 0)
     + (if has_category then 1 else 0)"

text \<open>Rows for the examples of the score: a name alone, and a row with four fields.\<close>

definition bare_row :: row where
  "bare_row =
     \<lparr>empresa = ''Acme'', web = [], email = [], email_tipo = ''no_encontrado'',
      telefono = [], direccion = [], ciudad = [], provincia = [], pais = [],
      categoria = [], fuente = ''google_places'', query = [], fecha_extraccion = []\<rparr>"

definition lead_row :: row where
  "lead_row =
     \<lparr>empresa = ''Acme'', web = ''http://acme.es'', email = ''ventas@acme.es'',
      email_tipo = ''corporativo'', telefono = [], direccion = [], ciudad = ''Madrid'',
      provincia = [], pais = [], categoria = ''store'', fuente = ''google_places'',
      query = [], fecha_extraccion = []\<rparr>"

section \<open>Character tables\<close>

text \<open>
  The classes and the lower-case map at the characters the examples use, as rewrite rules
  for evaluating the functions above on concrete text.
\<close>

lemma code_chars:
  "code CHR ''a'' = 97" "code CHR ''b'' = 98" "code CHR ''c'' = 99"
  "code CHR ''d'' = 100" "code CHR ''e'' = 101" "code CHR ''f'' = 102"
  "code CHR ''g'' = 103" "code CHR ''h'' = 104" "code CHR ''i'' = 105"
  "code CHR ''j'' = 106" "code CHR ''k'' = 107" "code CHR ''l'' = 108"
  "code CHR ''m'' = 109" "code CHR ''n'' = 110" "code CHR ''o'' = 111"
  "code CHR ''p'' = 112" "code CHR ''q'' = 113" "code CHR ''r'' = 114"
  "code CHR ''s'' = 115" "code CHR ''t'' = 116" "code CHR ''u'' = 117"
  "code CHR ''v'' = 118" "code CHR ''w'' = 119" "code CHR ''x'' = 120"
  "code CHR ''y'' = 121" "code CHR ''z'' = 122" "code CHR ''A'' = 65"
  "code CHR ''B'' = 66" "code CHR ''C'' = 67" "code CHR ''D'' = 68"
  "code CHR ''E'' = 69" "code CHR ''F'' = 70" "code CHR ''G'' = 71"
  "code CHR ''H'' = 72" "code CHR ''I'' = 73" "code CHR ''J'' = 74"
  "code CHR ''K'' = 75" "code CHR ''L'' = 76" "code CHR ''M'' = 77"
  "code CHR ''N'' = 78" "code CHR ''O'' = 79" "code CHR ''P'' = 80"
  "code CHR ''Q'' = 81" "code CHR ''R'' = 82" "code CHR ''S'' = 83"
  "code CHR ''T'' = 84" "code CHR ''U'' = 85" "code CHR ''V'' = 86"
  "code CHR ''W'' = 87" "code CHR ''X'' = 88" "code CHR ''Y'' = 89"
  "code CHR ''Z'' = 90" "code CHR ''0'' = 48" "code CHR ''1'' = 49"
  "code CHR ''2'' = 50" "code CHR ''3'' = 51" "code CHR ''4'' = 52"
  "code CHR ''5'' = 53" "code CHR ''6'' = 54" "code CHR ''7'' = 55"
  "code CHR ''8'' = 56" "code CHR ''9'' = 57" "code CHR '' '' = 32"
  "code CHR ''@'' = 64" "code CHR ''.'' = 46" "code CHR ''_'' = 95"
  "code CHR ''-'' = 45" "code CHR ''+'' = 43" "code CHR ''%'' = 37"
  "code CHR ''/'' = 47" "code CHR '':'' = 58"
  "code o_acute = 243"
  by (simp_all add: code_def o_acute_def)

lemma word_chars:
  "is_word CHR ''a'' = True" "is_word CHR ''b'' = True" "is_word CHR ''c'' = True"
  "is_word CHR ''d'' = True" "is_word CHR ''e'' = True" "is_word CHR ''f'' = True"
  "is_word CHR ''g'' = True" "is_word CHR ''h'' = True" "is_word CHR ''i'' = True"
  "is_word CHR ''j'' = True" "is_word CHR ''k'' = True" "is_word CHR ''l'' = True"
  "is_word CHR ''m'' = True" "is_word CHR ''n'' = True" "is_word CHR ''o'' = True"
  "is_word CHR ''p'' = True" "is_word CHR ''q'' = True" "is_word CHR ''r'' = True"
  "is_word CHR ''s'' = True" "is_word CHR ''t'' = True" "is_word CHR ''u'' = True"
  "is_word CHR ''v'' = True" "is_word CHR ''w'' = True" "is_word CHR ''x'' = True"
  "is_word CHR ''y'' = True" "is_word CHR ''z'' = True" "is_word CHR ''A'' = True"
  "is_word CHR ''B'' = True" "is_word CHR ''C'' = True" "is_word CHR ''D'' = True"
  "is_word CHR ''E'' = True" "is_word CHR ''F'' = True" "is_word CHR ''G'' = True"
  "is_word CHR ''H'' = True" "is_word CHR ''I'' = True" "is_word CHR ''J'' = True"
  "is_word CHR ''K'' = True" "is_word CHR ''L'' = True" "is_word CHR ''M'' = True"
  "is_word CHR ''N'' = True" "is_word CHR ''O'' = True" "is_word CHR ''P'' = True"
  "is_word CHR ''Q'' = True" "is_word CHR ''R'' = True" "is_word CHR ''S'' = True"
  "is_word CHR ''T'' = True" "is_word CHR ''U'' = True" "is_word CHR ''V'' = True"
  "is_word CHR ''W'' = True" "is_word CHR ''X'' = True" "is_word CHR ''Y'' = True"
  "is_word CHR ''Z'' = True" "is_word CHR ''0'' = True" "is_word CHR ''1'' = True"
  "is_word CHR ''2'' = True" "is_word CHR ''3'' = True" "is_word CHR ''4'' = True"
  "is_word CHR ''5'' = True" "is_word CHR ''6'' = True" "is_word CHR ''7'' = True"
  "is_word CHR ''8'' = True" "is_word CHR ''9'' = True" "is_word CHR '' '' = False"
  "is_word CHR ''@'' = False" "is_word CHR ''.'' = False" "is_word CHR ''_'' = True"
  "is_word CHR ''-'' = False" "is_word CHR ''+'' = False" "is_word CHR ''%'' = False"
  "is_word CHR ''/'' = False" "is_word CHR '':'' = False"
  "is_word o_acute = True"
  by (simp_all add: is_word_def is_digit_def is_upper_ascii_def is_lower_ascii_def code_chars)

lemma lower_chars:
  "lower_char CHR ''a'' = CHR ''a''" "lower_char CHR ''b'' = CHR ''b''" "lower_char CHR ''c'' = CHR ''c''"
  "lower_char CHR ''d'' = CHR ''d''" "lower_char CHR ''e'' = CHR ''e''" "lower_char CHR ''f'' = CHR ''f''"
  "lower_char CHR ''g'' = CHR ''g''" "lower_char CHR ''h'' = CHR ''h''" "lower_char CHR ''i'' = CHR ''i''"
  "lower_char CHR ''j'' = CHR ''j''" "lower_char CHR ''k'' = CHR ''k''" "lower_char CHR ''l'' = CHR ''l''"
  "lower_char CHR ''m'' = CHR ''m''" "lower_char CHR ''n'' = CHR ''n''" "lower_char CHR ''o'' = CHR ''o''"
  "lower_char CHR ''p'' = CHR ''p''" "lower_char CHR ''q'' = CHR ''q''" "lower_char CHR ''r'' = CHR ''r''"
  "lower_char CHR ''s'' = CHR ''s''" "lower_char CHR ''t'' = CHR ''t''" "lower_char CHR ''u'' = CHR ''u''"
  "lower_char CHR ''v'' = CHR ''v''" "lower_char CHR ''w'' = CHR ''w''" "lower_char CHR ''x'' = CHR ''x''"
  "lower_char CHR ''y'' = CHR ''y''" "lower_char CHR ''z'' = CHR ''z''" "lower_char CHR ''A'' = CHR ''a''"
  "lower_char CHR ''B'' = CHR ''b''" "lower_char CHR ''C'' = CHR ''c''" "lower_char CHR ''D'' = CHR ''d''"
  "lower_char CHR ''E'' = CHR ''e''" "lower_char CHR ''F'' = CHR ''f''" "lower_char CHR ''G'' = CHR ''g''"
  "lower_char CHR ''H'' = CHR ''h''" "lower_char CHR ''I'' = CHR ''i''" "lower_char CHR ''J'' = CHR ''j''"
  "lower_char CHR ''K'' = CHR ''k''" "lower_char CHR ''L'' = CHR ''l''" "lower_char CHR ''M'' = CHR ''m''"
  "lower_char CHR ''N'' = CHR ''n''" "lower_char CHR ''O'' = CHR ''o''" "lower_char CHR ''P'' = CHR ''p''"
  "lower_char CHR ''Q'' = CHR ''q''" "lower_char CHR ''R'' = CHR ''r''" "lower_char CHR ''S'' = CHR ''s''"
  "lower_char CHR ''T'' = CHR ''t''" "lower_char CHR ''U'' = CHR ''u''" "lower_char CHR ''V'' = CHR ''v''"
  "lower_char CHR ''W'' = CHR ''w''" "lower_char CHR ''X'' = CHR ''x''" "lower_char CHR ''Y'' = CHR ''y''"
  "lower_char CHR ''Z'' = CHR ''z''" "lower_char CHR ''0'' = CHR ''0''" "lower_char CHR ''1'' = CHR ''1''"
  "lower_char CHR ''2'' = CHR ''2''" "lower_char CHR ''3'' = CHR ''3''" "lower_char CHR ''4'' = CHR ''4''"
  "lower_char CHR ''5'' = CHR ''5''" "lower_char CHR ''6'' = CHR ''6''" "lower_char CHR ''7'' = CHR ''7''"
  "lower_char CHR ''8'' = CHR ''8''" "lower_char CHR ''9'' = CHR ''9''" "lower_char CHR '' '' = CHR '' ''"
  "lower_char CHR ''@'' = CHR ''@''" "lower_char CHR ''.'' = CHR ''.''" "lower_char CHR ''_'' = CHR ''_''"
  "lower_char CHR ''-'' = CHR ''-''" "lower_char CHR ''+'' = CHR ''+''" "lower_char CHR ''%'' = CHR ''%''"
  "lower_char CHR ''/'' = CHR ''/''" "lower_char CHR '':'' = CHR '':''"
  "lower_char o_acute = o_acute"
  by (simp_all add: lower_char_def is_upper_ascii_def code_chars)
    (simp_all add: char_of_def bit_0 bit_Suc_0_iff)

lemma space_chars:
  "is_space CHR ''a'' = False" "is_space CHR ''b'' = False" "is_space CHR ''c'' = False"
  "is_space CHR ''d'' = False" "is_space CHR ''e'' = False" "is_space CHR ''f'' = False"
  "is_space CHR ''g'' = False" "is_space CHR ''h'' = False" "is_space CHR ''i'' = False"
  "is_space CHR ''j'' = False" "is_space CHR ''k'' = False" "is_space CHR ''l'' = False"
  "is_space CHR ''m'' = False" "is_space CHR ''n'' = False" "is_space CHR ''o'' = False"
  "is_space CHR ''p'' = False" "is_space CHR ''q'' = False" "is_space CHR ''r'' = False"
  "is_space CHR ''s'' = False" "is_space CHR ''t'' = False" "is_space CHR ''u'' = False"
  "is_space CHR ''v'' = False" "is_space CHR ''w'' = False" "is_space CHR ''x'' = False"
  "is_space CHR ''y'' = False" "is_space CHR ''z'' = False" "is_space CHR ''A'' = False"
  "is_space CHR ''B'' = False" "is_space CHR ''C'' = False" "is_space CHR ''D'' = False"
  "is_space CHR ''E'' = False" "is_space CHR ''F'' = False" "is_space CHR ''G'' = False"
  "is_space CHR ''H'' = False" "is_space CHR ''I'' = False" "is_space CHR ''J'' = False"
  "is_space CHR ''K'' = False" "is_space CHR ''L'' = False" "is_space CHR ''M'' = False"
  "is_space CHR ''N'' = False" "is_space CHR ''O'' = False" "is_space CHR ''P'' = False"
  "is_space CHR ''Q'' = False" "is_space CHR ''R'' = False" "is_space CHR ''S'' = False"
  "is_space CHR ''T'' = False" "is_space CHR ''U'' = False" "is_space CHR ''V'' = False"
  "is_space CHR ''W'' = False" "is_space CHR ''X'' = False" "is_space CHR ''Y'' = False"
  "is_space CHR ''Z'' = False" "is_space CHR ''0'' = False" "is_space CHR ''1'' = False"
  "is_space CHR ''2'' = False" "is_space CHR ''3'' = False" "is_space CHR ''4'' = False"
  "is_space CHR ''5'' = False" "is_space CHR ''6'' = False" "is_space CHR ''7'' = False"
  "is_space CHR ''8'' = False" "is_space CHR ''9'' = False" "is_space CHR '' '' = True"
  "is_space CHR ''@'' = False" "is_space CHR ''.'' = False" "is_space CHR ''_'' = False"
  "is_space CHR ''-'' = False" "is_space CHR ''+'' = False" "is_space CHR ''%'' = False"
  "is_space CHR ''/'' = False" "is_space CHR '':'' = False"
  by (simp_all add: is_space_def code_chars)

lemma alpha_chars:
  "is_alpha CHR ''a'' = True" "is_alpha CHR ''b'' = True" "is_alpha CHR ''c'' = True"
  "is_alpha CHR ''d'' = True" "is_alpha CHR ''e'' = True" "is_alpha CHR ''f'' = True"
  "is_alpha CHR ''g'' = True" "is_alpha CHR ''h'' = True" "is_alpha CHR ''i'' = True"
  "is_alpha CHR ''j'' = True" "is_alpha CHR ''k'' = True" "is_alpha CHR ''l'' = True"
  "is_alpha CHR ''m'' = True" "is_alpha CHR ''n'' = True" "is_alpha CHR ''o'' = True"
  "is_alpha CHR ''p'' = True" "is_alpha CHR ''q'' = True" "is_alpha CHR ''r'' = True"
  "is_alpha CHR ''s'' = True" "is_alpha CHR ''t'' = True" "is_alpha CHR ''u'' = True"
  "is_alpha CHR ''v'' = True" "is_alpha CHR ''w'' = True" "is_alpha CHR ''x'' = True"
  "is_alpha CHR ''y'' = True" "is_alpha CHR ''z'' = True" "is_alpha CHR ''A'' = True"
  "is_alpha CHR ''B'' = True" "is_alpha CHR ''C'' = True" "is_alpha CHR ''D'' = True"
  "is_alpha CHR ''E'' = True" "is_alpha CHR ''F'' = True" "is_alpha CHR ''G'' = True"
  "is_alpha CHR ''H'' = True" "is_alpha CHR ''I'' = True" "is_alpha CHR ''J'' = True"
  "is_alpha CHR ''K'' = True" "is_alpha CHR ''L'' = True" "is_alpha CHR ''M'' = True"
  "is_alpha CHR ''N'' = True" "is_alpha CHR ''O'' = True" "is_alpha CHR ''P'' = True"
  "is_alpha CHR ''Q'' = True" "is_alpha CHR ''R'' = True" "is_alpha CHR ''S'' = True"
  "is_alpha CHR ''T'' = True" "is_alpha CHR ''U'' = True" "is_alpha CHR ''V'' = True"
  "is_alpha CHR ''W'' = True" "is_alpha CHR ''X'' = True" "is_alpha CHR ''Y'' = True"
  "is_alpha CHR ''Z'' = True" "is_alpha CHR ''0'' = False" "is_alpha CHR ''1'' = False"
  "is_alpha CHR ''2'' = False" "is_alpha CHR ''3'' = False" "is_alpha CHR ''4'' = False"
  "is_alpha CHR ''5'' = False" "is_alpha CHR ''6'' = False" "is_alpha CHR ''7'' = False"
  "is_alpha CHR ''8'' = False" "is_alpha CHR ''9'' = False" "is_alpha CHR '' '' = False"
  "is_alpha CHR ''@'' = False" "is_alpha CHR ''.'' = False" "is_alpha CHR ''_'' = False"
  "is_alpha CHR ''-'' = False" "is_alpha CHR ''+'' = False" "is_alpha CHR ''%'' = False"
  "is_alpha CHR ''/'' = False" "is_alpha CHR '':'' = False"
  by (simp_all add: is_alpha_def is_upper_ascii_def is_lower_ascii_def code_chars)

lemma digit_chars:
  "is_digit CHR ''a'' = False" "is_digit CHR ''b'' = False" "is_digit CHR ''c'' = False"
  "is_digit CHR ''d'' = False" "is_digit CHR ''e'' = False" "is_digit CHR ''f'' = False"
  "is_digit CHR ''g'' = False" "is_digit CHR ''h'' = False" "is_digit CHR ''i'' = False"
  "is_digit CHR ''j'' = False" "is_digit CHR ''k'' = False" "is_digit CHR ''l'' = False"
  "is_digit CHR ''m'' = False" "is_digit CHR ''n'' = False" "is_digit CHR ''o'' = False"
  "is_digit CHR ''p'' = False" "is_digit CHR ''q'' = False" "is_digit CHR ''r'' = False"
  "is_digit CHR ''s'' = False" "is_digit CHR ''t'' = False" "is_digit CHR ''u'' = False"
  "is_digit CHR ''v'' = False" "is_digit CHR ''w'' = False" "is_digit CHR ''x'' = False"
  "is_digit CHR ''y'' = False" "is_digit CHR ''z'' = False" "is_digit CHR ''A'' = False"
  "is_digit CHR ''B'' = False" "is_digit CHR ''C'' = False" "is_digit CHR ''D'' = False"
  "is_digit CHR ''E'' = False" "is_digit CHR ''F'' = False" "is_digit CHR ''G'' = False"
  "is_digit CHR ''H'' = False" "is_digit CHR ''I'' = False" "is_digit CHR ''J'' = False"
  "is_digit CHR ''K'' = False" "is_digit CHR ''L'' = False" "is_digit CHR ''M'' = False"
  "is_digit CHR ''N'' = False" "is_digit CHR ''O'' = False" "is_digit CHR ''P'' = False"
  "is_digit CHR ''Q'' = False" "is_digit CHR ''R'' = False" "is_digit CHR ''S'' = False"
  "is_digit CHR ''T'' = False" "is_digit CHR ''U'' = False" "is_digit CHR ''V'' = False"
  "is_digit CHR ''W'' = False" "is_digit CHR ''X'' = False" "is_digit CHR ''Y'' = False"
  "is_digit CHR ''Z'' = False" "is_digit CHR ''0'' = True" "is_digit CHR ''1'' = True"
  "is_digit CHR ''2'' = True" "is_digit CHR ''3'' = True" "is_digit CHR ''4'' = True"
  "is_digit CHR ''5'' = True" "is_digit CHR ''6'' = True" "is_digit CHR ''7'' = True"
  "is_digit CHR ''8'' = True" "is_digit CHR ''9'' = True" "is_digit CHR '' '' = False"
  "is_digit CHR ''@'' = False" "is_digit CHR ''.'' = False" "is_digit CHR ''_'' = False"
  "is_digit CHR ''-'' = False" "is_digit CHR ''+'' = False" "is_digit CHR ''%'' = False"
  "is_digit CHR ''/'' = False" "is_digit CHR '':'' = False"
  by (simp_all add: is_digit_def code_chars)

lemma o_acute_neq:
  "(o_acute = CHR ''o'') = False" "(CHR ''o'' = o_acute) = False"
  "(CHR ''n'' = o_acute) = False" "(CHR '' '' = o_acute) = False"
  "(o_acute = CHR ''n'') = False" "(o_acute = CHR '' '') = False"
  by (simp_all add: o_acute_def)

lemmas text_eval =
  text_lower_def latin_def word_def lower_chars word_chars space_chars re_search_def o_acute_neq

section \<open>The text signal scorer\<close>

lemma score_loop_sum: "score_loop rules t score = score + rule_sum rules t"
  by (induction rules arbitrary: score) (auto simp: rule_sum_def)

lemma score_sistema_actual:
  "compute_score (latin ''sistema actual y otro sistema'') = 3 + 5"
  unfolding compute_score_def Let_def
  by (simp add: text_eval POSITIVE_SIGNALS_def NEGATIVE_SIGNALS_def)

lemma score_presupuesto:
  "compute_score (latin ''Presupuesto 100 '' @ [Euro]) = - 8"
  unfolding compute_score_def Let_def
  by (simp add: text_eval POSITIVE_SIGNALS_def NEGATIVE_SIGNALS_def)

lemma score_precio_sin_espacio:
  "compute_score (latin ''wordpress por 200'' @ [Euro] @ latin '' o 300'' @ [Euro]) = - 5 + - 8"
  unfolding compute_score_def Let_def
  by (simp add: text_eval POSITIVE_SIGNALS_def NEGATIVE_SIGNALS_def)

text \<open>
  C4: for every text, \<open>compute_score\<close> is the sum over the positive rules plus the sum over
  the negative rules of the weight of each rule whose pattern occurs in the lower-cased
  text. A rule counts once however often its pattern occurs, and rules that match
  overlapping text each count.
\<close>

theorem compute_score_is_rule_sum:
  "compute_score text =
     rule_sum POSITIVE_SIGNALS (text_lower text)
     + rule_sum NEGATIVE_SIGNALS (text_lower text)"
  by (simp add: compute_score_def score_loop_sum Let_def)

text \<open>
  The equation at three texts: one where the rules of \<open>sistema\<close> and \<open>sistema actual\<close> match
  overlapping text and \<open>sistema\<close> occurs twice, and two where the price rule matches, with
  and without a space before the euro sign.
\<close>

theorem compute_score_is_rule_sum_witness:
  "rule_sum POSITIVE_SIGNALS (text_lower (latin ''sistema actual y otro sistema''))
     + rule_sum NEGATIVE_SIGNALS (text_lower (latin ''sistema actual y otro sistema'')) = 3 + 5
   \<and> rule_sum POSITIVE_SIGNALS (text_lower (latin ''Presupuesto 100 '' @ [Euro]))
     + rule_sum NEGATIVE_SIGNALS (text_lower (latin ''Presupuesto 100 '' @ [Euro])) = - 8
   \<and> rule_sum POSITIVE_SIGNALS
        (text_lower (latin ''wordpress por 200'' @ [Euro] @ latin '' o 300'' @ [Euro]))
     + rule_sum NEGATIVE_SIGNALS
        (text_lower (latin ''wordpress por 200'' @ [Euro] @ latin '' o 300'' @ [Euro]))
     = - 5 + - 8"
  using compute_score_is_rule_sum [of "latin ''sistema actual y otro sistema''"]
    compute_score_is_rule_sum [of "latin ''Presupuesto 100 '' @ [Euro]"]
    compute_score_is_rule_sum
      [of "latin ''wordpress por 200'' @ [Euro] @ latin '' o 300'' @ [Euro]"]
  by (simp only: score_sistema_actual score_presupuesto score_precio_sin_espacio)

text \<open>An alternation occurs in a text exactly when one of its branches does.\<close>

lemma search_from_Alt:
  "search_from wd (Alt a b) p s = (search_from wd a p s \<or> search_from wd b p s)"
  by (induction s arbitrary: p) auto

lemma re_search_Alt:
  "re_search wd (Alt a b) t = (re_search wd a t \<or> re_search wd b t)"
  by (simp add: re_search_def search_from_Alt)

lemma labels_differ:
  "label_failed \<noteq> label_integration" "label_failed \<noteq> label_manual"
  "label_integration \<noteq> label_manual"
  by (simp_all add: label_failed_def label_integration_def label_manual_def)

text \<open>
  C5 as stated fails: a text with \<open>api\<close> and \<open>excel\<close> that also has \<open>fall\<close> gets the label
  of the failure group, which is tested first.
\<close>

theorem infer_problem_api_excel_counterexample:
  "\<not> (re_search text_word (word ''api'') (text_lower (latin ''falla la api con excel''))
      \<and> re_search text_word (word ''excel'') (text_lower (latin ''falla la api con excel''))
      \<longrightarrow> infer_problem (latin ''falla la api con excel'') = label_integration)"
  unfolding infer_problem_def Let_def
  by (simp add: text_eval pat_failed_def labels_differ)

text \<open>
  C5, amended: a text whose lower-cased form has \<open>api\<close> and \<open>excel\<close> never gets the
  manual-process label; it gets the integration label unless the failure pattern occurs
  in it too, and then the label of the failure group.
\<close>

theorem infer_problem_api_excel:
  assumes "re_search text_word (word ''api'') (text_lower text)"
      and "re_search text_word (word ''excel'') (text_lower text)"
  shows "infer_problem text =
           (if re_search text_word pat_failed (text_lower text)
            then label_failed else label_integration)
         \<and> infer_problem text \<noteq> label_manual"
proof -
  have "re_search text_word pat_integration (text_lower text)"
    using assms(1) by (simp add: pat_integration_def re_search_Alt)
  then show ?thesis
    by (simp add: infer_problem_def labels_differ)
qed

theorem infer_problem_api_excel_witness:
  "re_search text_word (word ''api'') (text_lower (latin ''exportar excel por API''))
   \<and> re_search text_word (word ''excel'') (text_lower (latin ''exportar excel por API''))
   \<and> infer_problem (latin ''exportar excel por API'') = label_integration
   \<and> infer_problem (latin ''exportar excel por API'') \<noteq> label_manual"
proof -
  have a: "re_search text_word (word ''api'') (text_lower (latin ''exportar excel por API''))"
    by (simp add: text_eval)
  have b: "re_search text_word (word ''excel'') (text_lower (latin ''exportar excel por API''))"
    by (simp add: text_eval)
  have c: "\<not> re_search text_word pat_failed (text_lower (latin ''exportar excel por API''))"
    by (simp add: text_eval pat_failed_def)
  show ?thesis
    using infer_problem_api_excel [OF a b] a b c by (simp add: labels_differ)
qed

lemma example_score: "compute_score (full_text example_title example_description) = 19"
  unfolding compute_score_def Let_def full_text_def example_title_def example_description_def
  by (simp add: text_eval POSITIVE_SIGNALS_def NEGATIVE_SIGNALS_def)

text \<open>
  C6 as stated fails: the score of the posting is not 20. The English word
  \<open>integration\<close> does not match the pattern of \<open>integraci\'on\<close>, and \<open>postgres\<close> matches a
  rule of weight 4.
\<close>

theorem example_score_counterexample:
  "compute_score (full_text example_title example_description) \<noteq> 20"
  by (simp add: example_score)

text \<open>
  C6, amended: the posting scores 19 (backend 3, api 4, crm 4, postgres 4, migraci\'on 4),
  which is at least 5, so the minimum score filter keeps its row.
\<close>

theorem example_score_passes_filter:
  "compute_score (full_text example_title example_description) = 19
   \<and> (make_posting source example_title example_description \<in> set rows
      \<longrightarrow> make_posting source example_title example_description \<in> set (score_filter rows))"
  by (simp add: example_score score_filter_def make_posting_def)

theorem example_score_passes_filter_witness:
  "score_filter [make_posting ''tecnoempleo_backend'' example_title example_description]
     = [make_posting ''tecnoempleo_backend'' example_title example_description]"
  using example_score_passes_filter
    [of "''tecnoempleo_backend''"
        "[make_posting ''tecnoempleo_backend'' example_title example_description]"]
  by (simp add: score_filter_def make_posting_def example_score)

section \<open>Email classification\<close>

lemmas email_eval =
  strip_def lower_def lower_chars space_chars
  re_fullmatch_def EMAIL_REGEX_def local_char_def host_char_def alpha_chars digit_chars
  PERSONAL_DOMAINS_def last_two_def

lemma example_addresses:
  "is_corporate_email ''ana@gmail.com'' = False"
  "is_corporate_email ''ventas@acme.es'' = True"
  "is_corporate_email ''admin@acme.es'' = True"
  "is_corporate_email ''info@localhost'' = False"
  "is_corporate_email ''Ventas@Mail.Gmail.com'' = False"
  unfolding is_corporate_email_def Let_def
  by (simp_all add: email_eval)

text \<open>\<open>split\<close> never returns the empty list, so its last element exists.\<close>

lemma split_nonempty: "split sep s \<noteq> []"
  by (induction s) (auto split: list.splits)

lemma is_corporate_email_iff:
  "is_corporate_email a =
     (re_fullmatch is_word EMAIL_REGEX (lower (strip a)) \<and> \<not> denylisted (email_domain (lower (strip a))))"
  by (auto simp: is_corporate_email_def denylisted_def email_domain_def Let_def)

text \<open>
  C1 as stated fails: a non-empty address without a valid syntax is tagged personal
  although neither its domain nor the last two labels of it are in the denylist.
\<close>

theorem classify_email_counterexample:
  "\<not> (classify_email ''info@localhost'' = ''personal''
        \<longleftrightarrow> denylisted (email_domain ''info@localhost''))"
  by (simp add: classify_email_def example_addresses denylisted_def email_domain_def
        PERSONAL_DOMAINS_def last_two_def)

text \<open>
  C1, amended: the tag is \<open>no_encontrado\<close> exactly for the empty address. A non-empty
  address is tagged \<open>corporativo\<close> exactly when, trimmed and lower-cased, it matches the
  email pattern as a whole and neither its domain after the last \<open>@\<close> nor the last two
  labels of the domain are in the denylist; every other non-empty address is tagged
  \<open>personal\<close>.
\<close>

theorem classify_email_cases:
  "(classify_email a = ''no_encontrado'' \<longleftrightarrow> a = [])
   \<and> (a \<noteq> [] \<longrightarrow>
        (classify_email a = ''corporativo'' \<longleftrightarrow>
           re_fullmatch is_word EMAIL_REGEX (lower (strip a))
           \<and> \<not> denylisted (email_domain (lower (strip a)))))
   \<and> (a \<noteq> [] \<longrightarrow>
        (classify_email a = ''personal'' \<longleftrightarrow>
           \<not> re_fullmatch is_word EMAIL_REGEX (lower (strip a))
           \<or> denylisted (email_domain (lower (strip a)))))"
  by (auto simp: classify_email_def is_corporate_email_iff)

theorem classify_email_cases_witness:
  "classify_email ''Ventas@Mail.Gmail.com'' = ''personal''
   \<and> denylisted (email_domain (lower (strip ''Ventas@Mail.Gmail.com'')))"
  using classify_email_cases [of "''Ventas@Mail.Gmail.com''"]
  by (simp add: classify_email_def example_addresses denylisted_def email_domain_def email_eval)

section \<open>The choice of one address\<close>

lemma contains_iff_sublist: "contains p s = sublist p s"
  by (induction s) (auto simp: sublist_Cons_right)

lemma contacto_contains_contact: "contains ''contacto'' s \<Longrightarrow> contains ''contact'' s"
proof -
  assume "contains ''contacto'' s"
  moreover have "sublist ''contact'' ''contacto''"
    by (simp flip: contains_iff_sublist)
  ultimately show ?thesis
    unfolding contains_iff_sublist by (rule sublist_order.order_trans [rotated])
qed

lemma inner_loop_find:
  "inner_loop p es chosen = (case first_with p es of Some e \<Rightarrow> Some e | None \<Rightarrow> chosen)"
  by (induction es) (auto simp: first_with_def)

lemma first_with_truthy: "p \<noteq> [] \<Longrightarrow> first_with p es = Some e \<Longrightarrow> e \<noteq> []"
  by (auto simp: first_with_def find_Some_iff lower_def)

lemma priority_loop_None:
  "[] \<notin> set ps \<Longrightarrow> priority_loop ps es None =
     (case find (\<lambda>p. first_with p es \<noteq> None) ps of
        None \<Rightarrow> None | Some p \<Rightarrow> first_with p es)"
proof (induction ps)
  case Nil
  then show ?case by simp
next
  case (Cons p ps)
  then have p: "p \<noteq> []" by auto
  show ?case
  proof (cases "first_with p es")
    case None
    with Cons show ?thesis by (simp add: inner_loop_find)
  next
    case (Some e)
    with first_with_truthy [OF p Some] show ?thesis by (simp add: inner_loop_find)
  qed
qed

lemma select_with_spec:
  assumes "[] \<notin> set ps" "es \<noteq> []"
  shows "select_with ps es = (spec_choice ps es, classify_email (spec_choice ps es))"
proof -
  obtain e es' where es: "es = e # es'" using assms(2) by (cases es) auto
  show ?thesis
  proof (cases "find (\<lambda>p. first_with p es \<noteq> None) ps")
    case None
    then show ?thesis
      using assms(1) by (simp add: es priority_loop_None spec_choice_def Let_def)
  next
    case (Some p)
    then have "first_with p es \<noteq> None" "p \<in> set ps" by (auto simp: find_Some_iff)
    then obtain c where c: "first_with p es = Some c" and "p \<noteq> []" using assms(1) by auto
    then have "c \<noteq> []" using first_with_truthy by blast
    then show ?thesis
      using assms(1) Some c by (simp add: es priority_loop_None spec_choice_def Let_def)
  qed
qed

lemma spec_choice_in_set: "es \<noteq> [] \<Longrightarrow> spec_choice ps es \<in> set es"
  by (auto simp: spec_choice_def first_with_def find_Some_iff split: option.splits)

lemma crawl_Cons:
  "crawl w (u # urls) E tr =
     (if fetch_url w u = [] then crawl w urls E (tr @ [u])
      else if \<exists>e\<in>E \<union> page_emails w (fetch_url w u). is_corporate_email e
      then ({e \<in> E \<union> page_emails w (fetch_url w u). is_corporate_email e}, tr @ [u])
      else crawl w urls (E \<union> page_emails w (fetch_url w u)) (tr @ [u]))"
  by (auto simp: Let_def)

lemma crawl_emails:
  "\<not> (\<exists>e\<in>E. is_corporate_email e) \<Longrightarrow>
     fst (crawl w urls E tr) = restrict_corporate (discovered w urls E)"
proof (induction urls arbitrary: E tr)
  case Nil
  then show ?case by (simp add: restrict_corporate_def)
next
  case (Cons u urls)
  show ?case
  proof (cases "fetch_url w u = []")
    case True
    with Cons show ?thesis by (simp add: crawl_Cons del: crawl.simps)
  next
    case False
    let ?E = "E \<union> page_emails w (fetch_url w u)"
    show ?thesis
    proof (cases "\<exists>e\<in>?E. is_corporate_email e")
      case True
      with False show ?thesis
        by (simp only: crawl_Cons discovered.simps Let_def restrict_corporate_def
              if_True if_False fst_conv)
    next
      case no: False
      with False Cons.IH [OF no] show ?thesis
        by (simp only: crawl_Cons discovered.simps Let_def if_True if_False)
    qed
  qed
qed

lemma restrict_corporate_nonempty: "S \<noteq> {} \<Longrightarrow> restrict_corporate S \<noteq> {}"
  by (auto simp: restrict_corporate_def)

text \<open>
  C2: the address chosen when the page loop has discovered at least one address; \<open>es\<close>
  lists, in iteration order, the set the loop ends with. That set is not empty: it is the
  corporate part of the discovered addresses if there is one, else all of them. In it the
  first keyword of the priority list that an address contains decides, and the first
  address containing it (in iteration order) is chosen; if no keyword occurs, the least
  address is chosen. So a corporate address is chosen whenever one was discovered, and
  otherwise the choice is made among all discovered addresses.
\<close>

theorem select_email_spec:
  assumes "set es = fst (crawl w urls {} tr)" and "discovered w urls {} \<noteq> {}"
  shows "es \<noteq> []
         \<and> set es = restrict_corporate (discovered w urls {})
         \<and> select_email es = (spec_choice priority es, classify_email (spec_choice priority es))
         \<and> fst (select_email es) \<in> restrict_corporate (discovered w urls {})
         \<and> ((\<exists>e\<in>discovered w urls {}. is_corporate_email e)
              \<longrightarrow> is_corporate_email (fst (select_email es)))
         \<and> (\<not> (\<exists>e\<in>discovered w urls {}. is_corporate_email e)
              \<longrightarrow> set es = discovered w urls {})"
proof -
  have a: "set es = restrict_corporate (discovered w urls {})"
    using assms(1) by (simp add: crawl_emails)
  have ne: "es \<noteq> []"
    using a restrict_corporate_nonempty [OF assms(2)] by auto
  have b: "select_email es = (spec_choice priority es, classify_email (spec_choice priority es))"
    unfolding select_email_def
    by (rule select_with_spec [OF _ ne]) (simp add: priority_def)
  have c: "fst (select_email es) \<in> restrict_corporate (discovered w urls {})"
    using a b spec_choice_in_set [OF ne] by simp
  then have d: "(\<exists>e\<in>discovered w urls {}. is_corporate_email e)
              \<longrightarrow> is_corporate_email (fst (select_email es))"
    by (auto simp: restrict_corporate_def split: if_splits)
  have e: "\<not> (\<exists>e\<in>discovered w urls {}. is_corporate_email e)
              \<longrightarrow> set es = discovered w urls {}"
    using a by (simp add: restrict_corporate_def)
  from ne a b c d e show ?thesis by blast
qed

lemma Collect_insert_if:
  "{e \<in> insert a A. P e} = (if P a then insert a {e \<in> A. P e} else {e \<in> A. P e})"
  by auto

lemma example_crawl:
  "fst (crawl example_world [''http://acme.es/''] {} []) = {''ventas@acme.es'', ''admin@acme.es''}"
proof -
  have "page_emails example_world (fetch_url example_world ''http://acme.es/'')
          = {''ana@gmail.com'', ''ventas@acme.es'', ''admin@acme.es''}"
       "fetch_url example_world ''http://acme.es/'' \<noteq> []"
    by (simp_all add: example_world_def)
  then show ?thesis
    unfolding crawl_Cons
    by (simp only: Un_empty_left bex_simps Collect_insert_if example_addresses
          if_True if_False fst_conv simp_thms empty_iff empty_def [symmetric])
qed

lemma example_discovered:
  "discovered example_world [''http://acme.es/''] {} =
     {''ana@gmail.com'', ''ventas@acme.es'', ''admin@acme.es''}"
proof -
  have "page_emails example_world (fetch_url example_world ''http://acme.es/'')
          = {''ana@gmail.com'', ''ventas@acme.es'', ''admin@acme.es''}"
       "fetch_url example_world ''http://acme.es/'' \<noteq> []"
    by (simp_all add: example_world_def)
  then show ?thesis
    unfolding discovered.simps Let_def
    by (simp only: Un_empty_left bex_simps example_addresses if_True if_False simp_thms)
qed

theorem select_email_spec_witness:
  "discovered example_world [''http://acme.es/''] {} \<noteq> {}
   \<and> select_email [''admin@acme.es'', ''ventas@acme.es''] = (''ventas@acme.es'', ''corporativo'')"
proof -
  have s: "set [''admin@acme.es'', ''ventas@acme.es'']
             = fst (crawl example_world [''http://acme.es/''] {} [])"
    unfolding example_crawl by auto
  have d: "discovered example_world [''http://acme.es/''] {} \<noteq> {}"
    unfolding example_discovered by simp
  have c: "spec_choice priority [''admin@acme.es'', ''ventas@acme.es''] = ''ventas@acme.es''"
    by (simp add: spec_choice_def priority_def first_with_def lower_def lower_chars)
  show ?thesis
    using select_email_spec [OF s d] c d
    by (simp add: classify_email_def example_addresses)
qed

text \<open>
  C10: the keyword \<open>contacto\<close> never decides. The choice with the priority list of the
  code is the choice with the list from which \<open>contacto\<close> is removed, since an address
  that contains \<open>contacto\<close> contains \<open>contact\<close>, which is tried before.
\<close>

lemma spec_choice_contacto:
  "spec_choice priority es =
     spec_choice [''info@'', ''contact'', ''comercial'', ''ventas'', ''admin@''] es"
proof -
  have "first_with ''contacto'' es \<noteq> None \<Longrightarrow> first_with ''contact'' es \<noteq> None"
    by (auto simp: first_with_def find_None_iff dest: contacto_contains_contact)
  then show ?thesis
    by (auto simp: spec_choice_def priority_def)
qed

theorem contacto_never_decides:
  "select_email emails =
     select_with [''info@'', ''contact'', ''comercial'', ''ventas'', ''admin@''] emails"
proof (cases emails)
  case Nil
  then show ?thesis by (simp add: select_email_def)
next
  case (Cons e es)
  then have ne: "emails \<noteq> []" by simp
  have "select_email emails
          = (spec_choice priority emails, classify_email (spec_choice priority emails))"
    unfolding select_email_def by (rule select_with_spec [OF _ ne]) (simp add: priority_def)
  moreover have
    "select_with [''info@'', ''contact'', ''comercial'', ''ventas'', ''admin@''] emails
       = (spec_choice [''info@'', ''contact'', ''comercial'', ''ventas'', ''admin@''] emails,
          classify_email
            (spec_choice [''info@'', ''contact'', ''comercial'', ''ventas'', ''admin@''] emails))"
    by (rule select_with_spec [OF _ ne]) simp
  ultimately show ?thesis by (simp add: spec_choice_contacto)
qed

theorem contacto_never_decides_witness:
  "fst (select_with [''info@'', ''contact'', ''comercial'', ''ventas'', ''admin@'']
         [''ventas@acme.es'', ''contacto@acme.es'']) = ''contacto@acme.es''"
proof -
  have "fst (select_email [''ventas@acme.es'', ''contacto@acme.es'']) = ''contacto@acme.es''"
    by (simp add: select_email_def priority_def Let_def lower_def lower_chars)
  then show ?thesis
    using contacto_never_decides [of "[''ventas@acme.es'', ''contacto@acme.es'']"] by simp
qed

section \<open>Sorting and removing duplicates\<close>

lemma sorted_sort_values: "sorted_wrt ranks_before (sort_values rows)"
proof -
  have "sorted (map (\<lambda>r. (- score_inicial r, email_tipo r)) (sort_values rows))"
    unfolding sort_values_def by (rule sorted_sort_key)
  then have "sorted_wrt (\<lambda>a b. (- score_inicial a, email_tipo a) \<le> (- score_inicial b, email_tipo b))
               (sort_values rows)"
    by (simp add: sorted_map)
  then show ?thesis
    by (rule sorted_wrt_mono_rel [rotated]) (auto simp: ranks_before_def less_eq_prod_def)
qed

lemma tag_order: "''corporativo'' < ''no_encontrado'' \<and> ''no_encontrado'' < ''personal''"
  by (simp add: less_char_def)

lemma drop_duplicates_nth:
  "drop_duplicates seen xs =
     map (nth xs)
       (filter (\<lambda>i. pair_key (xs ! i) \<notin> set seen
                  \<and> (\<forall>j<i. pair_key (xs ! j) \<noteq> pair_key (xs ! i)))
          [0..<length xs])"
proof (induction xs arbitrary: seen)
  case Nil
  then show ?case by simp
next
  case (Cons r rs)
  have upt: "[0..<length (r # rs)] = 0 # map Suc [0..<length rs]"
    by (simp only: length_Cons map_Suc_upt) (rule upt_conv_Cons, simp)
  show ?case
  proof (cases "pair_key r \<in> set seen")
    case True
    have "filter (\<lambda>k. pair_key (rs ! k) \<notin> set seen \<and> pair_key r \<noteq> pair_key (rs ! k)
                      \<and> (\<forall>j<k. pair_key (rs ! j) \<noteq> pair_key (rs ! k))) [0..<length rs]
          = filter (\<lambda>k. pair_key (rs ! k) \<notin> set seen
                      \<and> (\<forall>j<k. pair_key (rs ! j) \<noteq> pair_key (rs ! k))) [0..<length rs]"
      using True by (intro filter_cong) auto
    with True show ?thesis
      unfolding upt
      by (simp add: Cons.IH filter_map comp_def All_less_Suc2 del: upt_Suc)
  next
    case False
    have "filter (\<lambda>k. pair_key (rs ! k) \<notin> set seen \<and> pair_key r \<noteq> pair_key (rs ! k)
                      \<and> (\<forall>j<k. pair_key (rs ! j) \<noteq> pair_key (rs ! k))) [0..<length rs]
          = filter (\<lambda>k. (pair_key (rs ! k) \<noteq> pair_key r \<and> pair_key (rs ! k) \<notin> set seen)
                      \<and> (\<forall>j<k. pair_key (rs ! j) \<noteq> pair_key (rs ! k))) [0..<length rs]"
      by (intro filter_cong) auto
    with False show ?thesis
      unfolding upt
      by (simp add: Cons.IH filter_map comp_def All_less_Suc2 del: upt_Suc)
  qed
qed

text \<open>
  C8: the stage sorts the rows by falling score and then by rising tag, a string
  comparison in which \<open>corporativo\<close> comes before \<open>no_encontrado\<close> and that before
  \<open>personal\<close>; the sorted table has the same rows. Then it keeps of each (name, website)
  pair the first row, which is the one that ranks highest.
\<close>

theorem dedup_rank_sorted_first:
  "sorted_wrt ranks_before (sort_values rows)
   \<and> mset (sort_values rows) = mset rows
   \<and> ''corporativo'' < ''no_encontrado'' \<and> ''no_encontrado'' < ''personal''
   \<and> dedup_rank rows = first_occurrences (sort_values rows)"
proof -
  have "mset (sort_values rows) = mset rows"
    by (simp add: sort_values_def)
  moreover have "dedup_rank rows = first_occurrences (sort_values rows)"
    by (simp add: dedup_rank_def first_occurrences_def drop_duplicates_nth)
  ultimately show ?thesis
    using tag_order sorted_sort_values [of rows] by simp
qed

lemma example_sort:
  "sort_values
     [example_row ''Acme'' ''http://acme.es'' ''personal'' (1 / 2),
      example_row ''Beta'' ''http://beta.es'' ''corporativo'' (1 / 2),
      example_row ''Acme'' ''http://acme.es'' ''no_encontrado'' 1]
   = [example_row ''Acme'' ''http://acme.es'' ''no_encontrado'' 1,
      example_row ''Beta'' ''http://beta.es'' ''corporativo'' (1 / 2),
      example_row ''Acme'' ''http://acme.es'' ''personal'' (1 / 2)]"
  by (simp add: sort_values_def example_row_def less_eq_prod_def less_char_def less_eq_char_def)

theorem dedup_rank_sorted_first_witness:
  "dedup_rank
     [example_row ''Acme'' ''http://acme.es'' ''personal'' (1 / 2),
      example_row ''Beta'' ''http://beta.es'' ''corporativo'' (1 / 2),
      example_row ''Acme'' ''http://acme.es'' ''no_encontrado'' 1]
   = [example_row ''Acme'' ''http://acme.es'' ''no_encontrado'' 1,
      example_row ''Beta'' ''http://beta.es'' ''corporativo'' (1 / 2)]"
  using dedup_rank_sorted_first
    [of "[example_row ''Acme'' ''http://acme.es'' ''personal'' (1 / 2),
          example_row ''Beta'' ''http://beta.es'' ''corporativo'' (1 / 2),
          example_row ''Acme'' ''http://acme.es'' ''no_encontrado'' 1]"]
  unfolding example_sort
  by (simp add: first_occurrences_def upt_conv_Cons All_less_Suc2 example_row_def pair_key_def)

section \<open>One crawl for each registrable domain\<close>

lemma run_items_steps: "run_items w q s items = run_steps w s (map (Pair q) items)"
  by (induction items arbitrary: s) auto

lemma run_steps_append: "run_steps w s (xs @ ys) = run_steps w (run_steps w s xs) ys"
  by (induction xs arbitrary: s) auto

lemma run_queries_steps:
  "run_queries w s qs =
     run_steps w s (concat (map (\<lambda>q. map (Pair q) (places_text_search w q)) qs))"
  by (induction qs arbitrary: s) (auto simp: run_items_steps run_steps_append)

lemma normalize_website_nonempty: "url \<noteq> [] \<Longrightarrow> normalize_website w url \<noteq> []"
  by (simp add: normalize_website_def Let_def split: prod.splits)

lemma seen_places_process_item:
  "seen_places (process_item w q s it) =
     (if it = [] \<or> it \<in> seen_places s then seen_places s else insert it (seen_places s))"
  by (simp add: process_item_def Let_def split: option.splits prod.splits)

lemma seen_domains_process_item: "seen_domains s \<subseteq> seen_domains (process_item w q s it)"
  by (auto simp: process_item_def Let_def split: option.splits prod.splits)

lemma seen_domains_run_steps: "seen_domains s \<subseteq> seen_domains (run_steps w s steps)"
proof (induction steps arbitrary: s)
  case Nil
  then show ?case by simp
next
  case (Cons x steps)
  obtain q it where x: "x = (q, it)" by (cases x)
  have "seen_domains s \<subseteq> seen_domains (process_item w q s it)"
    by (rule seen_domains_process_item)
  also have "\<dots> \<subseteq> seen_domains (run_steps w (process_item w q s it) steps)"
    by (rule Cons.IH)
  finally show ?case by (simp add: x)
qed

text \<open>A place that reaches the website step leaves its registrable domain in the set.\<close>

lemma domain_seen_after:
  assumes "a \<noteq> []" "a \<notin> seen_places s" "place_details w a = Some da" "d_website da \<noteq> []"
      and "registered_domain w (website_of w da) \<noteq> []"
  shows "registered_domain w (website_of w da) \<in> seen_domains (process_item w q s a)"
  using assms normalize_website_nonempty [of "d_website da" w]
  by (auto simp: process_item_def website_of_def Let_def split: prod.splits)

text \<open>A place whose domain is in the set gets its row without a crawl.\<close>

lemma process_item_seen_domain:
  assumes "b \<noteq> []" "b \<notin> seen_places s" "place_details w b = Some db" "d_website db \<noteq> []"
      and "registered_domain w (website_of w db) \<noteq> []"
      and "registered_domain w (website_of w db) \<in> seen_domains s"
  shows "process_item w q s b =
           s\<lparr>seen_places := insert b (seen_places s),
             all_rows := all_rows s @ [make_row w q db (website_of w db) [] ''no_encontrado'']\<rparr>"
  using assms normalize_website_nonempty [of "d_website db" w]
  by (simp add: process_item_def website_of_def Let_def)

lemma collect_urls_nonempty: "us \<noteq> [] \<Longrightarrow> collect_urls w base ps us \<noteq> []"
  by (induction ps arbitrary: us) (auto simp: Let_def)

lemma collect_urls_Cons_nonempty: "collect_urls w base (p # ps) us \<noteq> []"
proof -
  have "collect_urls w base ps (if u \<notin> set us then us @ [u] else us) \<noteq> []" for u
    by (rule collect_urls_nonempty) auto
  then show ?thesis by (simp add: Let_def)
qed

lemma find_candidate_pages_nonempty: "find_candidate_pages w base \<noteq> []"
  unfolding find_candidate_pages_def take_eq_Nil
  using collect_urls_Cons_nonempty by (simp del: collect_urls.simps)

lemma crawl_fetches:
  "urls \<noteq> [] \<Longrightarrow> \<exists>us. us \<noteq> [] \<and> snd (crawl w urls E tr) = tr @ us"
proof (induction urls arbitrary: E tr)
  case Nil
  then show ?case by simp
next
  case (Cons u urls)
  have step: "\<exists>us. us \<noteq> [] \<and> snd (crawl w urls E' (tr @ [u])) = tr @ us" for E'
  proof (cases urls)
    case Nil
    then show ?thesis by simp
  next
    case (Cons v vs)
    then obtain us where "snd (crawl w urls E' (tr @ [u])) = (tr @ [u]) @ us"
      using Cons.IH [of E' "tr @ [u]"] by auto
    then show ?thesis by auto
  qed
  show ?case
    unfolding crawl_Cons using step by auto
qed

text \<open>The first place of a domain is crawled: its pass fetches at least one page.\<close>

lemma process_item_new_domain:
  assumes "a \<noteq> []" "a \<notin> seen_places s" "place_details w a = Some da" "d_website da \<noteq> []"
      and "registered_domain w (website_of w da) \<notin> seen_domains s"
  shows "\<exists>us. us \<noteq> [] \<and> fetched_urls (process_item w q s a) = fetched_urls s @ us"
proof -
  obtain us where "us \<noteq> []"
    and "snd (crawl w (find_candidate_pages w (website_of w da)) {} (fetched_urls s))
           = fetched_urls s @ us"
    using crawl_fetches [OF find_candidate_pages_nonempty] by blast
  then show ?thesis
    using assms normalize_website_nonempty [of "d_website da" w]
    by (auto simp: process_item_def website_of_def Let_def split: prod.splits)
qed

text \<open>
  C7: let two places with a website share a registrable domain, and let the pass for the
  second come after the pass for the first, both with a new identifier and with details.
  Then the pass for the second fetches no page, and it adds one row, which holds the
  directory fields of the place, an empty email and the tag \<open>no_encontrado\<close>. If the
  domain was not seen before the first place, the pass for the first fetches pages.
\<close>

theorem second_place_of_domain_not_crawled:
  assumes "a \<noteq> []" "a \<notin> seen_places s" "place_details w a = Some da" "d_website da \<noteq> []"
      and "b \<noteq> []" "b \<notin> seen_places (run_steps w (process_item w qa s a) mid)"
          "place_details w b = Some db" "d_website db \<noteq> []"
      and "registered_domain w (website_of w da) = registered_domain w (website_of w db)"
      and "registered_domain w (website_of w db) \<noteq> []"
  shows "fetched_urls (process_item w qb (run_steps w (process_item w qa s a) mid) b)
           = fetched_urls (run_steps w (process_item w qa s a) mid)
         \<and> all_rows (process_item w qb (run_steps w (process_item w qa s a) mid) b)
           = all_rows (run_steps w (process_item w qa s a) mid)
               @ [make_row w qb db (website_of w db) [] ''no_encontrado'']
         \<and> empresa (make_row w qb db (website_of w db) [] ''no_encontrado'') = strip (d_name db)
         \<and> direccion (make_row w qb db (website_of w db) [] ''no_encontrado'')
             = strip (d_formatted_address db)
         \<and> telefono (make_row w qb db (website_of w db) [] ''no_encontrado'')
             = clean_phone (d_formatted_phone_number db)
         \<and> web (make_row w qb db (website_of w db) [] ''no_encontrado'') = website_of w db
         \<and> ciudad (make_row w qb db (website_of w db) [] ''no_encontrado'')
             = (if address_component (d_address_components db) ''locality'' \<noteq> []
                then address_component (d_address_components db) ''locality''
                else address_component (d_address_components db) ''postal_town'')
         \<and> categoria (make_row w qb db (website_of w db) [] ''no_encontrado'')
             = (if d_types db \<noteq> [] then join '', '' (d_types db) else [])
         \<and> email (make_row w qb db (website_of w db) [] ''no_encontrado'') = []
         \<and> email_tipo (make_row w qb db (website_of w db) [] ''no_encontrado'') = ''no_encontrado''
         \<and> (registered_domain w (website_of w da) \<notin> seen_domains s \<longrightarrow>
              (\<exists>us. us \<noteq> [] \<and> fetched_urls (process_item w qa s a) = fetched_urls s @ us))"
proof -
  let ?s2 = "run_steps w (process_item w qa s a) mid"
  have "registered_domain w (website_of w da) \<in> seen_domains (process_item w qa s a)"
    using assms by (intro domain_seen_after) auto
  then have "registered_domain w (website_of w db) \<in> seen_domains ?s2"
    using seen_domains_run_steps [of "process_item w qa s a" w mid] assms(9) by auto
  then have "process_item w qb ?s2 b =
      ?s2\<lparr>seen_places := insert b (seen_places ?s2),
          all_rows := all_rows ?s2 @ [make_row w qb db (website_of w db) [] ''no_encontrado'']\<rparr>"
    using assms by (intro process_item_seen_domain) auto
  moreover have "registered_domain w (website_of w da) \<notin> seen_domains s \<longrightarrow>
      (\<exists>us. us \<noteq> [] \<and> fetched_urls (process_item w qa s a) = fetched_urls s @ us)"
    using assms process_item_new_domain by blast
  ultimately show ?thesis
    by (simp add: make_row_def Let_def row.defs)
qed

lemma acme_places:
  "place_details acme_world ''p1'' = Some (acme_details ''Acme'' ''http://acme.es/madrid'')"
  "place_details acme_world ''p2'' = Some (acme_details ''Acme Getafe'' ''http://www.acme.es'')"
  "registered_domain acme_world u = ''acme.es''"
  "d_website (acme_details name site) = site"
  by (simp_all add: acme_world_def acme_details_def)

theorem second_place_of_domain_not_crawled_witness:
  "fetched_urls (process_item acme_world ''q''
       (run_steps acme_world (process_item acme_world ''q'' initial_state ''p1'') []) ''p2'')
     = fetched_urls (run_steps acme_world (process_item acme_world ''q'' initial_state ''p1'') [])
   \<and> email (make_row acme_world ''q'' (acme_details ''Acme Getafe'' ''http://www.acme.es'')
              (website_of acme_world (acme_details ''Acme Getafe'' ''http://www.acme.es''))
              [] ''no_encontrado'') = []
   \<and> (\<exists>us. us \<noteq> [] \<and> fetched_urls (process_item acme_world ''q'' initial_state ''p1'') = us)"
  using second_place_of_domain_not_crawled
    [of "''p1''" initial_state acme_world "acme_details ''Acme'' ''http://acme.es/madrid''"
        "''p2''" "''q''" "[]" "acme_details ''Acme Getafe'' ''http://www.acme.es''" "''q''"]
  by (simp add: acme_places seen_places_process_item initial_state_def)

section \<open>The lead score\<close>

text \<open>The exponent of a number between two consecutive powers of two.\<close>

lemma floorlog2_eq: "2 ^ k \<le> m \<Longrightarrow> m < 2 ^ Suc k \<Longrightarrow> floorlog 2 m = Suc k"
proof (rule antisym)
  assume "m < 2 ^ Suc k"
  then show "floorlog 2 m \<le> Suc k" by (intro floorlog_leI) auto
next
  assume "2 ^ k \<le> m"
  then show "Suc k \<le> floorlog 2 m" by (intro floorlog_geI) auto
qed

lemma ilog2_ge1:
  assumes "2 ^ k \<le> x" "x < 2 ^ Suc k"
  shows "ilog2 x = int k"
proof -
  have x1: "1 \<le> x" using assms(1) one_le_power [of "2::rat" k] by linarith
  have "(2::int) ^ k \<le> \<lfloor>x\<rfloor>" using assms(1) by (simp add: le_floor_iff)
  moreover have "\<lfloor>x\<rfloor> < (2::int) ^ Suc k" using assms(2) by (simp add: floor_less_iff)
  moreover have "0 \<le> \<lfloor>x\<rfloor>" using x1 by simp
  ultimately have "int (2 ^ k) \<le> int (nat \<lfloor>x\<rfloor>)" "int (nat \<lfloor>x\<rfloor>) < int (2 ^ Suc k)"
    by simp_all
  then have "2 ^ k \<le> nat \<lfloor>x\<rfloor>" "nat \<lfloor>x\<rfloor> < 2 ^ Suc k"
    by (simp_all only: of_nat_le_iff of_nat_less_iff)
  then have "floorlog 2 (nat \<lfloor>x\<rfloor>) = Suc k" by (rule floorlog2_eq)
  with x1 show ?thesis by (simp add: ilog2_def)
qed

lemma ilog2_lt1:
  assumes "1 / 2 ^ Suc k \<le> x" "x < 1 / 2 ^ k"
  shows "ilog2 x = - int (Suc k)"
proof -
  have "(0::rat) < 1 / 2 ^ Suc k" by simp
  then have pos: "0 < x" using assms(1) by linarith
  have "(1::rat) \<le> 2 ^ k" by (rule one_le_power) simp
  then have "(1::rat) / 2 ^ k \<le> 1" by (simp add: field_simps)
  then have lt1: "x < 1" using assms(2) by linarith
  have a: "1 / x \<le> 2 ^ Suc k" using assms(1) pos by (simp add: field_simps)
  have b: "2 ^ k < 1 / x" using assms(2) pos by (simp add: field_simps)
  have "\<lceil>1 / x\<rceil> \<le> (2::int) ^ Suc k" using a by (simp add: ceiling_le_iff)
  moreover have "(2::int) ^ k < \<lceil>1 / x\<rceil>" using b by (simp add: less_ceiling_iff)
  ultimately have "int (2 ^ k) \<le> int (nat (\<lceil>1 / x\<rceil> - 1))"
      "int (nat (\<lceil>1 / x\<rceil> - 1)) < int (2 ^ Suc k)"
    using pos by simp_all
  then have "2 ^ k \<le> nat (\<lceil>1 / x\<rceil> - 1)" "nat (\<lceil>1 / x\<rceil> - 1) < 2 ^ Suc k"
    by (simp_all only: of_nat_le_iff of_nat_less_iff)
  then have "floorlog 2 (nat (\<lceil>1 / x\<rceil> - 1)) = Suc k" by (rule floorlog2_eq)
  with lt1 show ?thesis by (simp add: ilog2_def)
qed

lemma fl_binade_0: "1 \<le> x \<Longrightarrow> x < 2 \<Longrightarrow>
    fl x = of_int (round_half_even (x * 4503599627370496)) / 4503599627370496"
  using ilog2_ge1 [of 0 x] by (simp add: fl_def Let_def)

lemma fl_binade_1: "1 / 2 \<le> x \<Longrightarrow> x < 1 \<Longrightarrow>
    fl x = of_int (round_half_even (x * 9007199254740992)) / 9007199254740992"
  using ilog2_lt1 [of 0 x] by (simp add: fl_def Let_def power_int_minus field_simps)

lemma fl_binade_2: "1 / 4 \<le> x \<Longrightarrow> x < 1 / 2 \<Longrightarrow>
    fl x = of_int (round_half_even (x * 18014398509481984)) / 18014398509481984"
  using ilog2_lt1 [of 1 x] by (simp add: fl_def Let_def power_int_minus field_simps)

lemma fl_binade_3: "1 / 8 \<le> x \<Longrightarrow> x < 1 / 4 \<Longrightarrow>
    fl x = of_int (round_half_even (x * 36028797018963968)) / 36028797018963968"
  using ilog2_lt1 [of 2 x] by (simp add: fl_def Let_def power_int_minus field_simps)

lemma fl_binade_4: "1 / 16 \<le> x \<Longrightarrow> x < 1 / 8 \<Longrightarrow>
    fl x = of_int (round_half_even (x * 72057594037927936)) / 72057594037927936"
  using ilog2_lt1 [of 3 x] by (simp add: fl_def Let_def power_int_minus field_simps)

lemma round_half_even_quotient:
  assumes "0 < b"
  shows "round_half_even (of_int a / of_int b) =
           (if 2 * (a mod b) < b then a div b
            else if b < 2 * (a mod b) then a div b + 1
            else if even (a div b) then a div b else a div b + 1)"
proof -
  have fl: "\<lfloor>(of_int a / of_int b :: rat)\<rfloor> = a div b"
    by (rule floor_divide_of_int_eq)
  have "(of_int a :: rat) = of_int (a div b) * of_int b + of_int (a mod b)"
    by (metis div_mult_mod_eq of_int_add of_int_mult)
  then have d: "(of_int a / of_int b :: rat) - of_int (a div b) = of_int (a mod b) / of_int b"
    using assms by (simp add: field_simps)
  have lt: "((of_int (a mod b) / of_int b :: rat) < 1 / 2) = (2 * (a mod b) < b)"
  proof -
    have "((of_int (a mod b) / of_int b :: rat) < 1 / 2) = ((of_int (2 * (a mod b)) :: rat) < of_int b)"
      using assms by (simp add: field_simps)
    then show ?thesis by (simp only: of_int_less_iff)
  qed
  have gt: "(1 / 2 < (of_int (a mod b) / of_int b :: rat)) = (b < 2 * (a mod b))"
  proof -
    have "(1 / 2 < (of_int (a mod b) / of_int b :: rat)) = ((of_int b :: rat) < of_int (2 * (a mod b)))"
      using assms by (simp add: field_simps)
    then show ?thesis by (simp only: of_int_less_iff)
  qed
  show ?thesis
    unfolding round_half_even_def Let_def fl d lt gt by simp
qed

lemma round_half_even_numerals:
  "round_half_even (numeral m / numeral n) =
     (if 2 * (numeral m mod numeral n) < (numeral n :: int) then numeral m div numeral n
      else if (numeral n :: int) < 2 * (numeral m mod numeral n) then numeral m div numeral n + 1
      else if even (numeral m div numeral n :: int) then numeral m div numeral n
      else numeral m div numeral n + 1)"
  "round_half_even (numeral m) = numeral m"
  "round_half_even 0 = 0"
  "round_half_even 1 = 1"
  using round_half_even_quotient [of "numeral n" "numeral m"]
  by (simp_all add: round_half_even_def)

lemmas fl_eval = fl_binade_0 fl_binade_1 fl_binade_2 fl_binade_3 fl_binade_4
  round_half_even_numerals


text \<open>
  The double nearest to a number of a given binade, and the rounding of a quotient of
  integers by integer division.
\<close>

lemma fl_0: "fl 0 = 0"
  by (simp add: fl_def)

lemma fl_tenths:
  "fl (1 / 10) = 3602879701896397 / 36028797018963968"
  "fl (1 / 5) = 3602879701896397 / 18014398509481984"
  "fl (3 / 10) = 5404319552844595 / 18014398509481984"
  "fl (2 / 5) = 3602879701896397 / 9007199254740992"
  "fl (1 / 2) = 1 / 2"
  "fl (3 / 5) = 5404319552844595 / 9007199254740992"
  "fl (7 / 10) = 3152519739159347 / 4503599627370496"
  "fl (4 / 5) = 3602879701896397 / 4503599627370496"
  "fl (9 / 10) = 8106479329266893 / 9007199254740992"
  "fl 1 = 1"
  by (simp_all add: fl_eval)

text \<open>
  The float sum of the weights is not always the double of the decimal sum: web, a
  corporate email, city and category add up to 0.7999999999999999, which the final
  \<open>round\<close> takes to 0.8.
\<close>

lemma float_sum_below_decimal:
  "fadd (fadd (fadd (fadd (lit_float 0) (lit_float (3 / 10))) (lit_float (3 / 10)))
      (lit_float (1 / 10))) (lit_float (1 / 10))
     = 7205759403792793 / 9007199254740992"
  "py_round2 (7205759403792793 / 9007199254740992) = fl (4 / 5)"
  by (simp_all add: fadd_def lit_float_def py_round2_def fl_0 fl_eval)

lemma score_of_table:
  "score_of w e t c k = fl (of_int (tenths w e t c k) / 10)"
  unfolding score_of_def Let_def
  by (cases w; cases e; cases t; cases c; cases k)
     (simp_all add: tenths_def lit_float_def fadd_def py_round2_def min_def fl_0 fl_eval)

lemma score_lead_flags:
  "score_lead r =
     score_of (web r \<noteq> []) (classify_email (email r) = ''corporativo'') (telefono r \<noteq> [])
       (ciudad r \<noteq> []) (categoria r \<noteq> [])"
  by (simp add: score_lead_def score_of_def)

lemma spec_score_tenths:
  "spec_score r =
     of_int (tenths (web r \<noteq> []) (classify_email (email r) = ''corporativo'')
       (telefono r \<noteq> []) (ciudad r \<noteq> []) (categoria r \<noteq> [])) / 10"
  by (simp add: spec_score_def spec_sum_def clamp01_def round2_def tenths_def
      round_half_even_numerals)

text \<open>
  C3: for every row, the float that \<open>score_lead\<close> returns is the double nearest to the
  score of the specification: the exact sum of 0.3 for a website, 0.3 for an email that
  classifies as corporate, 0.2 for a phone, 0.1 for a city and 0.1 for a category, from
  0, clamped to the interval from 0 to 1 and rounded to two decimals.
\<close>

theorem score_lead_is_spec_score: "score_lead r = fl (spec_score r)"
  by (simp only: score_lead_flags spec_score_tenths score_of_table)

lemma lead_row_flags:
  "classify_email ''ventas@acme.es'' = ''corporativo''"
  by (simp add: classify_email_def example_addresses)

lemma spec_score_lead_row: "spec_score lead_row = 4 / 5"
  by (simp add: spec_score_tenths tenths_def lead_row_def lead_row_flags)

theorem score_lead_is_spec_score_witness:
  "spec_score lead_row = 4 / 5
   \<and> score_lead lead_row = 3602879701896397 / 4503599627370496"
  using score_lead_is_spec_score [of lead_row]
  by (simp only: spec_score_lead_row fl_tenths simp_thms)

lemma score_of_mono:
  "score_of False e t c k \<le> score_of w e t c k"
  "score_of w False t c k \<le> score_of w e t c k"
  "score_of w e False c k \<le> score_of w e t c k"
  "score_of w e t False k \<le> score_of w e t c k"
  "score_of w e t c False \<le> score_of w e t c k"
  by (cases w; cases e; cases t; cases c; cases k;
      simp add: score_of_table tenths_def fl_0 fl_tenths)+

lemma score_of_bounds: "0 \<le> score_of w e t c k \<and> score_of w e t c k \<le> 1"
  by (cases w; cases e; cases t; cases c; cases k;
      simp add: score_of_table tenths_def fl_0 fl_tenths)

lemma tenths_bounds: "0 \<le> tenths w e t c k \<and> tenths w e t c k \<le> 10"
  by (simp add: tenths_def)

lemma empty_not_corporate: "(classify_email [] = ''corporativo'') = False"
  by (simp add: classify_email_def)

text \<open>
  C9: for every row, giving a value to the website, the email, the phone, the city or
  the category when that field was empty never lowers the score; the score lies
  between 0 and 1, and it is the double of a number of hundredths.
\<close>

theorem score_lead_monotone_bounded:
  "(web r = [] \<longrightarrow> score_lead r \<le> score_lead (r\<lparr>web := v1\<rparr>))
   \<and> (email r = [] \<longrightarrow> score_lead r \<le> score_lead (r\<lparr>email := v2\<rparr>))
   \<and> (telefono r = [] \<longrightarrow> score_lead r \<le> score_lead (r\<lparr>telefono := v3\<rparr>))
   \<and> (ciudad r = [] \<longrightarrow> score_lead r \<le> score_lead (r\<lparr>ciudad := v4\<rparr>))
   \<and> (categoria r = [] \<longrightarrow> score_lead r \<le> score_lead (r\<lparr>categoria := v5\<rparr>))
   \<and> 0 \<le> score_lead r \<and> score_lead r \<le> 1
   \<and> (\<exists>n. 0 \<le> n \<and> n \<le> 100 \<and> score_lead r = fl (of_int n / 100))"
proof -
  let ?n = "tenths (web r \<noteq> []) (classify_email (email r) = ''corporativo'')
       (telefono r \<noteq> []) (ciudad r \<noteq> []) (categoria r \<noteq> [])"
  have "0 \<le> 10 * ?n \<and> 10 * ?n \<le> 100" using tenths_bounds [of "web r \<noteq> []"
      "classify_email (email r) = ''corporativo''" "telefono r \<noteq> []" "ciudad r \<noteq> []"
      "categoria r \<noteq> []"] by simp
  moreover have "score_lead r = fl (of_int (10 * ?n) / 100)"
    by (simp add: score_lead_flags score_of_table)
  ultimately have hundredths: "\<exists>n. 0 \<le> n \<and> n \<le> 100 \<and> score_lead r = fl (of_int n / 100)"
    by blast
  have bounds: "0 \<le> score_lead r \<and> score_lead r \<le> 1"
    by (simp only: score_lead_flags score_of_bounds simp_thms)
  have mono: "(web r = [] \<longrightarrow> score_lead r \<le> score_lead (r\<lparr>web := v1\<rparr>))
   \<and> (email r = [] \<longrightarrow> score_lead r \<le> score_lead (r\<lparr>email := v2\<rparr>))
   \<and> (telefono r = [] \<longrightarrow> score_lead r \<le> score_lead (r\<lparr>telefono := v3\<rparr>))
   \<and> (ciudad r = [] \<longrightarrow> score_lead r \<le> score_lead (r\<lparr>ciudad := v4\<rparr>))
   \<and> (categoria r = [] \<longrightarrow> score_lead r \<le> score_lead (r\<lparr>categoria := v5\<rparr>))"
    by (simp add: score_lead_flags score_of_mono empty_not_corporate)
  from mono bounds hundredths show ?thesis by simp
qed

lemma bare_row_scores:
  "score_lead bare_row = 0"
  "score_lead (bare_row\<lparr>web := ''http://acme.es''\<rparr>) = fl (3 / 10)"
  "score_lead (bare_row\<lparr>email := ''ventas@acme.es''\<rparr>) = fl (3 / 10)"
  "score_lead (bare_row\<lparr>telefono := ''+34911234567''\<rparr>) = fl (2 / 10)"
  "score_lead (bare_row\<lparr>ciudad := ''Madrid''\<rparr>) = fl (1 / 10)"
  "score_lead (bare_row\<lparr>categoria := ''store''\<rparr>) = fl (1 / 10)"
  by (simp_all add: score_lead_flags score_of_table tenths_def bare_row_def
      empty_not_corporate lead_row_flags fl_0)

theorem score_lead_monotone_bounded_witness:
  "web bare_row = [] \<and> email bare_row = [] \<and> telefono bare_row = []
   \<and> ciudad bare_row = [] \<and> categoria bare_row = []
   \<and> score_lead bare_row \<le> score_lead (bare_row\<lparr>web := ''http://acme.es''\<rparr>)
   \<and> score_lead bare_row \<le> score_lead (bare_row\<lparr>email := ''ventas@acme.es''\<rparr>)
   \<and> score_lead bare_row \<le> score_lead (bare_row\<lparr>telefono := ''+34911234567''\<rparr>)
   \<and> score_lead bare_row \<le> score_lead (bare_row\<lparr>ciudad := ''Madrid''\<rparr>)
   \<and> score_lead bare_row \<le> score_lead (bare_row\<lparr>categoria := ''store''\<rparr>)
   \<and> 0 \<le> score_lead bare_row \<and> score_lead bare_row \<le> 1"
  using score_lead_monotone_bounded [of bare_row "''http://acme.es''" "''ventas@acme.es''"
      "''+34911234567''" "''Madrid''" "''store''"]
  by (simp add: bare_row_def)

end
